theory Spec2Isabelle
  imports Complex_Main "HOL-Library.Word"
begin

unbundle bit_operations_syntax

text \<open>
  A model of the real-time voice client of this repository and of the properties its
  specification states: the sample codec (section 4.1 of the specification), the playback
  scheduler and the session controller (\<^verbatim>\<open>services/gemini-live.ts\<close>), and the caller
  (\<^verbatim>\<open>App.tsx\<close>) as far as it reacts to the controller's callbacks. Definitions come first,
  then the lemmas that run the model, then the properties, one block each.
\<close>

section \<open>Values shared by the codec and the client\<close>

type_synonym byte = "8 word"
type_synonym int16 = "16 word"

text \<open>
  A JavaScript \<^verbatim>\<open>throw\<close> carries any value. The client only asks whether the value is an
  \<^verbatim>\<open>Error\<close> (and then reads its message), so two cases are kept apart.
\<close>

datatype thrown = Error string | NonError

text \<open>
  The Web Audio \<^verbatim>\<open>AudioBuffer\<close>: its samples (numbers, exact here as reals: a 16-bit
  integer divided by 32768 is exact in binary floating point), its rate and channel count.
  \<^verbatim>\<open>duration\<close> is the read-only attribute: frames per channel over the rate.
\<close>

record audio_buffer =
  samples :: "real list"
  sampleRate :: nat
  numberOfChannels :: nat

definition duration :: "audio_buffer \<Rightarrow> real" where
  "duration b = real (length (samples b)) / (real (numberOfChannels b) * real (sampleRate b))"

section \<open>Sample codec\<close>

text \<open>
  Modelled from the spec: the encoder of \<^verbatim>\<open>utils/audio-utils\<close> (\<^verbatim>\<open>createPcmBlob\<close>), a
  module that \<^verbatim>\<open>services/gemini-live.ts\<close> imports and that is not among the sources.
  Section 4.1: each float is clamped to [-1,1], scaled to the signed 16-bit range and
  written little-endian, two bytes per sample. The scale factor is taken to be 32768, the
  divisor of the decoder; the product is cut towards zero, as a store into a 16-bit integer
  array does, and kept inside -32768 .. 32767, the signed 16-bit range.
\<close>

definition clamp_sample :: "real \<Rightarrow> real" where
  "clamp_sample s = max (- 1) (min 1 s)"

definition trunc :: "real \<Rightarrow> int" where
  "trunc x = (if 0 \<le> x then \<lfloor>x\<rfloor> else \<lceil>x\<rceil>)"

definition to_int16 :: "real \<Rightarrow> int16" where
  "to_int16 s = word_of_int (max (- 32768) (min 32767 (trunc (clamp_sample s * 32768))))"

definition le_bytes :: "int16 \<Rightarrow> byte list" where
  "le_bytes v = [ucast v, ucast (drop_bit 8 v)]"

definition encode :: "real list \<Rightarrow> byte list" where
  "encode ss = concat (map (\<lambda>s. le_bytes (to_int16 s)) ss)"

text \<open>
  Modelled from the spec: the decoder of \<^verbatim>\<open>utils/audio-utils\<close> (\<^verbatim>\<open>decodeAudioData\<close>),
  missing with the same module. Section 4.1: the byte length must be even, else the decoder
  fails with \<^verbatim>\<open>MalformedAudioError\<close>; it produces one sample per two bytes, read
  little-endian as a signed 16-bit integer and divided by 32768.
\<close>

definition from_le :: "byte \<Rightarrow> byte \<Rightarrow> int16" where
  "from_le lo hi = push_bit 8 (ucast hi) OR ucast lo"

fun int16_samples :: "byte list \<Rightarrow> real list" where
  "int16_samples (lo # hi # rest) =
     real_of_int (sint (from_le lo hi)) / 32768 # int16_samples rest"
| "int16_samples _ = []"

definition decode :: "byte list \<Rightarrow> nat \<Rightarrow> nat \<Rightarrow> thrown + audio_buffer" where
  "decode bytes rate channels =
     (if odd (length bytes) then Inl (Error ''MalformedAudioError'')
      else Inr \<lparr>samples = int16_samples bytes, sampleRate = rate,
                numberOfChannels = channels\<rparr>)"

section \<open>The browser and the SDK, as the client sees them\<close>

text \<open>
  Browser and SDK objects (audio contexts, graph nodes, buffer sources, promises, sessions)
  are opaque to the client: it creates them, keeps references and calls their methods.
  Each object is a handle, numbered in order of creation.
\<close>

type_synonym handle = nat

text \<open>
  \<^verbatim>\<open>types.ts\<close>: the voice names and the per-connection configuration.
\<close>

datatype VoiceName = Puck | Charon | Kore | Fenrir | Zephyr

record LiveConfig =
  voiceName :: VoiceName
  systemInstruction :: string

text \<open>
  The session object the SDK resolves the promise with. \<^verbatim>\<open>disconnect\<close> calls
  \<^verbatim>\<open>session.close?.()\<close> inside a try: the method may be missing, may return, or may throw.
  A promise is settled by the SDK, with a session or with a rejection.
\<close>

datatype close_method = Absent | Returns | Throws thrown

record session_obj =
  sid :: handle
  closeMethod :: close_method

datatype settlement = Resolved session_obj | Rejected thrown

text \<open>
  What the client does to the outside is recorded, in order, as a trace of calls: console
  output (by its fixed message), contexts created and closed, nodes created and disconnected,
  the microphone request, the call of \<^verbatim>\<open>ai.live.connect\<close>, \<^verbatim>\<open>session.close\<close>,
  \<^verbatim>\<open>source.start(t)\<close> and \<^verbatim>\<open>source.stop()\<close> of buffer sources,
  \<^verbatim>\<open>session.sendRealtimeInput\<close>, and the two callbacks handed to \<^verbatim>\<open>connect\<close>.
\<close>

datatype event =
    Log string
  | NewAudioContext handle nat
  | CloseContext handle
  | CreateNode handle
  | DisconnectNode handle
  | GetUserMedia
  | LiveConnect handle LiveConfig
  | SessionClose handle
  | SourceStart handle real
  | SourceStop handle
  | SendRealtimeInput handle string
  | OnDisconnect
  | OnError thrown

text \<open>
  An inbound \<^verbatim>\<open>LiveServerMessage\<close>, as far as the handler reads it:
  \<^verbatim>\<open>serverContent?.interrupted\<close> and
  \<^verbatim>\<open>serverContent?.modelTurn?.parts?.[0]?.inlineData?.data\<close>. Every level may be absent.
\<close>

record Blob_obj =
  data :: "string option"

record Part =
  inlineData :: "Blob_obj option"

record Content =
  parts :: "Part list option"

record LiveServerContent =
  interrupted :: "bool option"
  modelTurn :: "Content option"

record LiveServerMessage =
  serverContent :: "LiveServerContent option"

text \<open>
  What the client cannot decide itself. The three functions of \<^verbatim>\<open>utils/audio-utils\<close> are
  not among the sources and are parameters here: \<^verbatim>\<open>base64ToBytes\<close> and
  \<^verbatim>\<open>decodeAudioData\<close> may throw, \<^verbatim>\<open>createPcmBlob\<close> returns the encoded chunk.
  \<^verbatim>\<open>stopFails\<close> says for which buffer source \<^verbatim>\<open>stop()\<close> throws (one that has already
  finished, in browsers that reject a second stop), and \<^verbatim>\<open>sendFails\<close> for which session
  \<^verbatim>\<open>sendRealtimeInput\<close> throws (a closed stream).
\<close>

record env =
  base64ToBytes :: "string \<Rightarrow> thrown + byte list"
  decodeAudioData :: "byte list \<Rightarrow> nat \<Rightarrow> nat \<Rightarrow> thrown + audio_buffer"
  createPcmBlob :: "real list \<Rightarrow> string"
  stopFails :: "handle \<Rightarrow> thrown option"
  sendFails :: "handle \<Rightarrow> thrown option"

text \<open>
  The outcome of each step of \<^verbatim>\<open>connect\<close> that can fail: constructing either audio
  context, \<^verbatim>\<open>getUserMedia\<close>, the call of \<^verbatim>\<open>ai.live.connect\<close>, and the promise it
  returned.
\<close>

record connect_env =
  inputContextFails :: "thrown option"
  outputContextFails :: "thrown option"
  userMediaFails :: "thrown option"
  liveConnectFails :: "thrown option"
  sessionOutcome :: settlement

text \<open>
  The world outside the client: the next unused handle, the trace, the promises settled
  so far, and the continuations (\<^verbatim>\<open>.then(send).catch(warn)\<close>, each with the chunk it
  closes over) that capture callbacks have attached to a session promise.
\<close>

record world =
  fresh :: handle
  trace :: "event list"
  settled :: "(handle \<times> settlement) list"
  reactions :: "(handle \<times> string) list"

text \<open>
  The fields of \<^verbatim>\<open>class GeminiLiveClient\<close> (gemini-live.ts, lines 6 to 21). A JavaScript
  \<^verbatim>\<open>Set\<close> keeps insertion order and no duplicates: a list, with \<^verbatim>\<open>set_add\<close> and
  \<^verbatim>\<open>set_delete\<close> below. Times are seconds, as exact reals.
\<close>

record client =
  inputAudioContext :: "handle option"
  outputAudioContext :: "handle option"
  inputSource :: "handle option"
  processor :: "handle option"
  outputGain :: "handle option"
  nextStartTime :: real
  sources :: "handle list"
  userAnalyser :: "handle option"
  aiAnalyser :: "handle option"
  session :: "session_obj option"
  sessionPromise :: "handle option"

definition new_client :: client where
  "new_client = \<lparr>inputAudioContext = None, outputAudioContext = None, inputSource = None,
     processor = None, outputGain = None, nextStartTime = 0, sources = [],
     userAnalyser = None, aiAnalyser = None, session = None, sessionPromise = None\<rparr>"

definition new_world :: world where
  "new_world = \<lparr>fresh = 0, trace = [], settled = [], reactions = []\<rparr>"

text \<open>
  A method body is a program over the client and the world that either returns a value or
  throws, and keeps the state it reached when it throws. \<^verbatim>\<open>try_catch\<close> is
  \<^verbatim>\<open>try { ... } catch (e) { ... }\<close>: the handler runs in the state in which the body threw.
\<close>

type_synonym 'a prog = "client \<times> world \<Rightarrow> (thrown + 'a) \<times> (client \<times> world)"

definition ret :: "'a \<Rightarrow> 'a prog" where
  "ret v = (\<lambda>s. (Inr v, s))"

definition throw :: "thrown \<Rightarrow> 'a prog" where
  "throw e = (\<lambda>s. (Inl e, s))"

definition and_then :: "'a prog \<Rightarrow> ('a \<Rightarrow> 'b prog) \<Rightarrow> 'b prog" where
  "and_then m f = (\<lambda>s. case m s of (Inl e, s') \<Rightarrow> (Inl e, s') | (Inr v, s') \<Rightarrow> f v s')"

definition seq :: "unit prog \<Rightarrow> 'a prog \<Rightarrow> 'a prog" where
  "seq m n = and_then m (\<lambda>_. n)"

definition try_catch :: "'a prog \<Rightarrow> (thrown \<Rightarrow> 'a prog) \<Rightarrow> 'a prog" where
  "try_catch m h = (\<lambda>s. case m s of (Inl e, s') \<Rightarrow> h e s' | (Inr v, s') \<Rightarrow> (Inr v, s'))"

definition self :: "client prog" where
  "self = (\<lambda>s. (Inr (fst s), s))"

definition assign :: "(client \<Rightarrow> client) \<Rightarrow> unit prog" where
  "assign f = (\<lambda>s. (Inr (), (f (fst s), snd s)))"

definition emit :: "event \<Rightarrow> unit prog" where
  "emit e = (\<lambda>s. (Inr (), (fst s, (snd s)\<lparr>trace := trace (snd s) @ [e]\<rparr>)))"

definition new_object :: "handle prog" where
  "new_object = (\<lambda>s. (Inr (fresh (snd s)), (fst s, (snd s)\<lparr>fresh := Suc (fresh (snd s))\<rparr>)))"

primrec for_each :: "'a list \<Rightarrow> ('a \<Rightarrow> unit prog) \<Rightarrow> unit prog" where
  "for_each [] f = ret ()"
| "for_each (x # xs) f = seq (f x) (for_each xs f)"

definition set_add :: "'a \<Rightarrow> 'a list \<Rightarrow> 'a list" where
  "set_add x xs = (if x \<in> set xs then xs else xs @ [x])"

definition set_delete :: "'a \<Rightarrow> 'a list \<Rightarrow> 'a list" where
  "set_delete x xs = removeAll x xs"

section \<open>GeminiLiveClient\<close>

text \<open>
  gemini-live.ts, lines 134 to 155. The output clock \<^verbatim>\<open>outputAudioContext.currentTime\<close> is
  read once per call and is the first argument. \<^verbatim>\<open>onended\<close> is the handler installed on
  each source (lines 152 to 154).
\<close>

definition onended :: "handle \<Rightarrow> unit prog" where
  "onended source = assign (\<lambda>c. c\<lparr>sources := set_delete source (sources c)\<rparr>)"

definition scheduleAudioChunk :: "real \<Rightarrow> audio_buffer \<Rightarrow> unit prog" where
  "scheduleAudioChunk currentTime buffer =
     and_then self (\<lambda>c.
       if outputAudioContext c = None \<or> outputGain c = None then ret ()
       else
         and_then new_object (\<lambda>source.
         seq (assign (\<lambda>c. if nextStartTime c < currentTime
                            then c\<lparr>nextStartTime := currentTime\<rparr> else c))
         (and_then self (\<lambda>c.
         seq (emit (SourceStart source (nextStartTime c)))
         (seq (assign (\<lambda>c. c\<lparr>nextStartTime := nextStartTime c + duration buffer\<rparr>))
              (assign (\<lambda>c. c\<lparr>sources := set_add source (sources c)\<rparr>)))))))"

text \<open>
  gemini-live.ts, lines 157 to 164: every source is stopped inside its own try, then the
  set is cleared.
\<close>

definition source_stop :: "env \<Rightarrow> handle \<Rightarrow> unit prog" where
  "source_stop env source =
     (case stopFails env source of Some e \<Rightarrow> throw e | None \<Rightarrow> emit (SourceStop source))"

definition stopAllSources :: "env \<Rightarrow> unit prog" where
  "stopAllSources env =
     and_then self (\<lambda>c.
       seq (for_each (sources c) (\<lambda>source. try_catch (source_stop env source) (\<lambda>e. ret ())))
           (assign (\<lambda>c. c\<lparr>sources := []\<rparr>)))"

text \<open>
  The interruption branch of the message handler (lines 90 to 93), named as the spec names
  it: \<^verbatim>\<open>this.stopAllSources(); this.nextStartTime = 0;\<close>
\<close>

definition interrupt :: "env \<Rightarrow> unit prog" where
  "interrupt env = seq (stopAllSources env) (assign (\<lambda>c. c\<lparr>nextStartTime := 0\<rparr>))"

text \<open>
  gemini-live.ts, lines 86 to 112. \<^verbatim>\<open>base64Audio\<close> is the optional chain of line 96; the
  handler takes it as present when it is a non-empty string (\<^verbatim>\<open>base64Audio && ...\<close>).
  The handler is taken to run to its end before the next handler starts: the
  \<^verbatim>\<open>await\<close> on \<^verbatim>\<open>decodeAudioData\<close> resumes first.
\<close>

definition first_part :: "Part list \<Rightarrow> Part option" where
  "first_part ps = (case ps of [] \<Rightarrow> None | p # _ \<Rightarrow> Some p)"

definition base64Audio :: "LiveServerMessage \<Rightarrow> string option" where
  "base64Audio message =
     Option.bind (serverContent message) (\<lambda>sc.
     Option.bind (modelTurn sc) (\<lambda>mt.
     Option.bind (parts mt) (\<lambda>ps.
     Option.bind (first_part ps) (\<lambda>p.
     Option.bind (inlineData p) (\<lambda>d. data d)))))"

definition is_interrupted :: "LiveServerMessage \<Rightarrow> bool" where
  "is_interrupted message =
     (Option.bind (serverContent message) interrupted = Some True)"

definition lift :: "thrown + 'a \<Rightarrow> 'a prog" where
  "lift r = (case r of Inl e \<Rightarrow> throw e | Inr v \<Rightarrow> ret v)"

definition onmessage :: "env \<Rightarrow> real \<Rightarrow> LiveServerMessage \<Rightarrow> unit prog" where
  "onmessage env currentTime message =
     seq (if is_interrupted message then interrupt env else ret ())
     (and_then self (\<lambda>c.
        case base64Audio message of
          Some payload \<Rightarrow>
            if payload \<noteq> [] \<and> outputAudioContext c \<noteq> None \<and> outputGain c \<noteq> None then
              try_catch
                (and_then (lift (base64ToBytes env payload)) (\<lambda>pcmData.
                 and_then (lift (decodeAudioData env pcmData 24000 1)) (\<lambda>audioBuffer.
                 scheduleAudioChunk currentTime audioBuffer)))
                (\<lambda>err. emit (Log ''Error decoding audio''))
            else ret ()
        | None \<Rightarrow> ret ()))"

text \<open>
  gemini-live.ts, lines 83 to 85 and 113 to 120: the other three stream callbacks.
  \<^verbatim>\<open>onerror\<close> reports \<^verbatim>\<open>err.message || "Unknown Live API Error"\<close>.
\<close>

definition onopen :: "unit prog" where
  "onopen = emit (Log ''Gemini Live Connection Opened'')"

definition onclose :: "unit prog" where
  "onclose = seq (emit (Log ''Gemini Live Connection Closed'')) (emit OnDisconnect)"

definition onerror :: "string option \<Rightarrow> unit prog" where
  "onerror err_message =
     seq (emit (Log ''Gemini Live Error''))
         (emit (OnError (Error (case err_message of
                                  None \<Rightarrow> ''Unknown Live API Error''
                                | Some m \<Rightarrow> if m = [] then ''Unknown Live API Error'' else m))))"

text \<open>
  gemini-live.ts, lines 166 to 200. Optional calls (\<^verbatim>\<open>?.\<close>) do nothing on null.
\<close>

definition session_close :: "session_obj \<Rightarrow> unit prog" where
  "session_close sess =
     (case closeMethod sess of
        Absent \<Rightarrow> ret ()
      | Returns \<Rightarrow> emit (SessionClose (sid sess))
      | Throws e \<Rightarrow> throw e)"

definition node_disconnect :: "handle option \<Rightarrow> unit prog" where
  "node_disconnect node = (case node of None \<Rightarrow> ret () | Some n \<Rightarrow> emit (DisconnectNode n))"

definition context_close :: "handle option \<Rightarrow> unit prog" where
  "context_close ctx = (case ctx of None \<Rightarrow> ret () | Some x \<Rightarrow> emit (CloseContext x))"

definition disconnect :: "env \<Rightarrow> unit prog" where
  "disconnect env =
     seq (stopAllSources env)
     (seq (and_then self (\<lambda>c.
            case session c of
              Some sess \<Rightarrow>
                try_catch (session_close sess) (\<lambda>e. emit (Log ''Error closing session''))
            | None \<Rightarrow> ret ()))
     (seq (assign (\<lambda>c. c\<lparr>session := None\<rparr>))
     (seq (assign (\<lambda>c. c\<lparr>sessionPromise := None\<rparr>))
     (seq (and_then self (\<lambda>c. node_disconnect (processor c)))
     (seq (and_then self (\<lambda>c. node_disconnect (inputSource c)))
     (seq (and_then self (\<lambda>c. node_disconnect (userAnalyser c)))
     (seq (and_then self (\<lambda>c. node_disconnect (aiAnalyser c)))
     (seq (and_then self (\<lambda>c. node_disconnect (outputGain c)))
     (seq (and_then self (\<lambda>c. context_close (inputAudioContext c)))
     (seq (and_then self (\<lambda>c. context_close (outputAudioContext c)))
     (seq (assign (\<lambda>c. c\<lparr>inputAudioContext := None\<rparr>))
     (seq (assign (\<lambda>c. c\<lparr>outputAudioContext := None\<rparr>))
     (seq (assign (\<lambda>c. c\<lparr>processor := None\<rparr>))
          (assign (\<lambda>c. c\<lparr>inputSource := None\<rparr>)))))))))))))))"

text \<open>
  gemini-live.ts, lines 27 to 132. \<^verbatim>\<open>connect_open\<close> is the body of the try up to the
  assignment of \<^verbatim>\<open>sessionPromise\<close> (lines 29 to 122); \<^verbatim>\<open>connect_await\<close> is line 125,
  run once the promise is settled; \<^verbatim>\<open>connect_catch\<close> is the catch block (lines 127 to
  131), where a thrown value that is not an \<^verbatim>\<open>Error\<close> is replaced by
  \<^verbatim>\<open>new Error("Failed to connect")\<close>. In \<^verbatim>\<open>connect\<close> the whole call runs in one piece:
  the SDK settles the promise (\<^verbatim>\<open>settle\<close>) between the assignment and the await.
\<close>

definition new_AudioContext :: "thrown option \<Rightarrow> nat \<Rightarrow> handle prog" where
  "new_AudioContext fails rate =
     (case fails of
        Some e \<Rightarrow> throw e
      | None \<Rightarrow> and_then new_object (\<lambda>ctx. seq (emit (NewAudioContext ctx rate)) (ret ctx)))"

definition create_node :: "handle prog" where
  "create_node = and_then new_object (\<lambda>n. seq (emit (CreateNode n)) (ret n))"

definition getUserMedia :: "thrown option \<Rightarrow> unit prog" where
  "getUserMedia fails = (case fails of Some e \<Rightarrow> throw e | None \<Rightarrow> emit GetUserMedia)"

definition live_connect :: "thrown option \<Rightarrow> LiveConfig \<Rightarrow> handle prog" where
  "live_connect fails config =
     (case fails of
        Some e \<Rightarrow> throw e
      | None \<Rightarrow> and_then new_object (\<lambda>p. seq (emit (LiveConnect p config)) (ret p)))"

definition settle :: "handle \<Rightarrow> settlement \<Rightarrow> unit prog" where
  "settle p outcome =
     (\<lambda>s. (Inr (), (fst s, (snd s)\<lparr>settled := settled (snd s) @ [(p, outcome)]\<rparr>)))"

definition await :: "settlement \<Rightarrow> session_obj prog" where
  "await outcome = (case outcome of Resolved v \<Rightarrow> ret v | Rejected e \<Rightarrow> throw e)"

definition connect_open :: "connect_env \<Rightarrow> LiveConfig \<Rightarrow> handle prog" where
  "connect_open ce config =
     and_then (new_AudioContext (inputContextFails ce) 16000) (\<lambda>ictx.
     seq (assign (\<lambda>c. c\<lparr>inputAudioContext := Some ictx\<rparr>))
     (and_then (new_AudioContext (outputContextFails ce) 24000) (\<lambda>octx.
     seq (assign (\<lambda>c. c\<lparr>outputAudioContext := Some octx\<rparr>))
     (and_then create_node (\<lambda>ua.
     seq (assign (\<lambda>c. c\<lparr>userAnalyser := Some ua\<rparr>))
     (and_then create_node (\<lambda>aa.
     seq (assign (\<lambda>c. c\<lparr>aiAnalyser := Some aa\<rparr>))
     (and_then create_node (\<lambda>g.
     seq (assign (\<lambda>c. c\<lparr>outputGain := Some g\<rparr>))
     (seq (getUserMedia (userMediaFails ce))
     (and_then create_node (\<lambda>src.
     seq (assign (\<lambda>c. c\<lparr>inputSource := Some src\<rparr>))
     (and_then create_node (\<lambda>proc.
     seq (assign (\<lambda>c. c\<lparr>processor := Some proc\<rparr>))
     (and_then (live_connect (liveConnectFails ce) config) (\<lambda>p.
     seq (assign (\<lambda>c. c\<lparr>sessionPromise := Some p\<rparr>))
         (ret p)))))))))))))))))"

definition connect_await :: "settlement \<Rightarrow> unit prog" where
  "connect_await outcome = and_then (await outcome) (\<lambda>v. assign (\<lambda>c. c\<lparr>session := Some v\<rparr>))"

definition connect_catch :: "env \<Rightarrow> thrown \<Rightarrow> unit prog" where
  "connect_catch env error =
     seq (emit (Log ''Connection failed''))
     (seq (disconnect env)
          (emit (OnError (case error of Error m \<Rightarrow> Error m
                                        | NonError \<Rightarrow> Error ''Failed to connect''))))"

definition connect :: "env \<Rightarrow> connect_env \<Rightarrow> LiveConfig \<Rightarrow> unit prog" where
  "connect env ce config =
     try_catch
       (and_then (connect_open ce config) (\<lambda>p.
        seq (settle p (sessionOutcome ce)) (connect_await (sessionOutcome ce))))
       (connect_catch env)"

text \<open>
  gemini-live.ts, lines 54 to 67: the capture callback. The chunk is always encoded; with a
  session promise, \<^verbatim>\<open>.then(send).catch(warn)\<close> is attached to it and the callback
  returns. \<^verbatim>\<open>send_reaction\<close> is that continuation, run with the promise's settlement;
  \<^verbatim>\<open>run_reactions\<close> runs, in the order attached, those whose promise is settled.
\<close>

definition add_reaction :: "handle \<Rightarrow> string \<Rightarrow> unit prog" where
  "add_reaction p pcmBlob =
     (\<lambda>s. (Inr (), (fst s, (snd s)\<lparr>reactions := reactions (snd s) @ [(p, pcmBlob)]\<rparr>)))"

definition onaudioprocess :: "env \<Rightarrow> real list \<Rightarrow> unit prog" where
  "onaudioprocess env inputData =
     and_then self (\<lambda>c.
       case sessionPromise c of
         Some p \<Rightarrow> add_reaction p (createPcmBlob env inputData)
       | None \<Rightarrow> ret ())"

definition sendRealtimeInput :: "env \<Rightarrow> session_obj \<Rightarrow> string \<Rightarrow> unit prog" where
  "sendRealtimeInput env sess pcmBlob =
     (case sendFails env (sid sess) of
        Some e \<Rightarrow> throw e
      | None \<Rightarrow> emit (SendRealtimeInput (sid sess) pcmBlob))"

definition send_reaction :: "env \<Rightarrow> settlement \<Rightarrow> string \<Rightarrow> unit prog" where
  "send_reaction env outcome pcmBlob =
     try_catch (and_then (await outcome) (\<lambda>sess. sendRealtimeInput env sess pcmBlob))
               (\<lambda>err. emit (Log ''Failed to send audio''))"

definition run_reactions :: "env \<Rightarrow> unit prog" where
  "run_reactions env =
     (\<lambda>s.
        let known = settled (snd s);
            ready = filter (\<lambda>r. map_of known (fst r) \<noteq> None) (reactions (snd s));
            waiting = filter (\<lambda>r. map_of known (fst r) = None) (reactions (snd s))
        in for_each ready
             (\<lambda>r. case map_of known (fst r) of
                     Some outcome \<Rightarrow> send_reaction env outcome (snd r)
                   | None \<Rightarrow> ret ())
             (fst s, (snd s)\<lparr>reactions := waiting\<rparr>))"

section \<open>The caller: App\<close>

text \<open>
  App.tsx, lines 9 to 71: the state the caller keeps (\<^verbatim>\<open>ConnectionStatus\<close> is
  \<^verbatim>\<open>'disconnected' | 'connecting' | 'connected' | 'error'\<close>), the two callbacks it hands to
  \<^verbatim>\<open>connect\<close> (\<^verbatim>\<open>callback\<close>, applied to each callback event of the trace),
  \<^verbatim>\<open>handleConnect\<close> and \<^verbatim>\<open>handleDisconnect\<close>.
\<close>

datatype ConnectionStatus = Disconnected | Connecting | Connected | ErrorStatus

record app =
  status :: ConnectionStatus
  config :: LiveConfig
  error :: "string option"
  userAnalyser_ui :: "handle option"
  aiAnalyser_ui :: "handle option"

definition message_of :: "thrown \<Rightarrow> string" where
  "message_of e = (case e of Error m \<Rightarrow> m | NonError \<Rightarrow> [])"

definition callback :: "event \<Rightarrow> app \<Rightarrow> app" where
  "callback e a =
     (case e of
        OnDisconnect \<Rightarrow>
          a\<lparr>status := Disconnected, userAnalyser_ui := None, aiAnalyser_ui := None\<rparr>
      | OnError err \<Rightarrow>
          a\<lparr>error := Some (message_of err), status := ErrorStatus,
            userAnalyser_ui := None, aiAnalyser_ui := None\<rparr>
      | _ \<Rightarrow> a)"

definition run_with_callbacks :: "unit prog \<Rightarrow> app \<times> client \<times> world \<Rightarrow> app \<times> client \<times> world" where
  "run_with_callbacks m x =
     (case x of (a, s) \<Rightarrow>
        let s' = snd (m s)
        in (fold callback (drop (length (trace (snd s))) (trace (snd s'))) a, s'))"

definition handleConnect :: "env \<Rightarrow> connect_env \<Rightarrow> app \<times> client \<times> world \<Rightarrow> app \<times> client \<times> world" where
  "handleConnect env ce x =
     (case x of (a, s) \<Rightarrow>
        let a1 = a\<lparr>error := None, status := Connecting\<rparr>;
            (a2, s') = run_with_callbacks (connect env ce (config a1)) (a1, s)
        in (a2\<lparr>status := Connected, userAnalyser_ui := userAnalyser (fst s'),
                aiAnalyser_ui := aiAnalyser (fst s')\<rparr>, s'))"

definition handleDisconnect :: "env \<Rightarrow> app \<times> client \<times> world \<Rightarrow> app \<times> client \<times> world" where
  "handleDisconnect env x =
     (case x of (a, s) \<Rightarrow>
        (a\<lparr>status := Disconnected, userAnalyser_ui := None, aiAnalyser_ui := None\<rparr>,
         snd (disconnect env s)))"

section \<open>Reading a state\<close>

text \<open>
  The controller is idle when it holds no session, no session promise, no audio context,
  no processor, no input source and no live buffer source. \<^verbatim>\<open>open_contexts\<close> and
  \<^verbatim>\<open>wired_nodes\<close> read from a trace the contexts created and not yet closed, and the
  nodes created and not yet disconnected; \<^verbatim>\<open>reported\<close> the errors passed to the error
  callback. The remaining functions name the events of a teardown and of a continuation,
  and the first step of \<^verbatim>\<open>connect\<close> that fails.
\<close>

definition is_idle :: "client \<Rightarrow> bool" where
  "is_idle c \<longleftrightarrow>
     session c = None \<and> sessionPromise c = None \<and>
     inputAudioContext c = None \<and> outputAudioContext c = None \<and>
     processor c = None \<and> inputSource c = None \<and> sources c = []"

definition context_step :: "event \<Rightarrow> handle list \<Rightarrow> handle list" where
  "context_step e acc =
     (case e of NewAudioContext x r \<Rightarrow> acc @ [x]
              | CloseContext x \<Rightarrow> removeAll x acc
              | _ \<Rightarrow> acc)"

definition open_contexts :: "event list \<Rightarrow> handle list" where
  "open_contexts tr = fold context_step tr []"

definition node_step :: "event \<Rightarrow> handle list \<Rightarrow> handle list" where
  "node_step e wired =
     (case e of CreateNode n \<Rightarrow> wired @ [n]
              | DisconnectNode n \<Rightarrow> removeAll n wired
              | _ \<Rightarrow> wired)"

definition wired_nodes :: "event list \<Rightarrow> handle list" where
  "wired_nodes tr = fold node_step tr []"

primrec reported :: "event list \<Rightarrow> thrown list" where
  "reported [] = []"
| "reported (ev # tr) = (case ev of OnError e \<Rightarrow> e # reported tr | _ \<Rightarrow> reported tr)"

definition opt_event :: "(handle \<Rightarrow> event) \<Rightarrow> handle option \<Rightarrow> event list" where
  "opt_event f h = (case h of None \<Rightarrow> [] | Some x \<Rightarrow> [f x])"

definition close_events :: "session_obj option \<Rightarrow> event list" where
  "close_events s =
     (case s of
        None \<Rightarrow> []
      | Some sess \<Rightarrow>
          (case closeMethod sess of
             Absent \<Rightarrow> []
           | Returns \<Rightarrow> [SessionClose (sid sess)]
           | Throws e \<Rightarrow> [Log ''Error closing session'']))"

definition teardown_events :: "env \<Rightarrow> client \<Rightarrow> event list" where
  "teardown_events env c =
     map SourceStop (filter (\<lambda>s. stopFails env s = None) (sources c)) @
     close_events (session c) @
     opt_event DisconnectNode (processor c) @
     opt_event DisconnectNode (inputSource c) @
     opt_event DisconnectNode (userAnalyser c) @
     opt_event DisconnectNode (aiAnalyser c) @
     opt_event DisconnectNode (outputGain c) @
     opt_event CloseContext (inputAudioContext c) @
     opt_event CloseContext (outputAudioContext c)"

definition reaction_event :: "env \<Rightarrow> settlement \<Rightarrow> string \<Rightarrow> event" where
  "reaction_event env outcome pcmBlob =
     (case outcome of
        Rejected e \<Rightarrow> Log ''Failed to send audio''
      | Resolved sess \<Rightarrow>
          (case sendFails env (sid sess) of
             None \<Rightarrow> SendRealtimeInput (sid sess) pcmBlob
           | Some e \<Rightarrow> Log ''Failed to send audio''))"

text \<open>
  \<^verbatim>\<open>streams_acquired\<close> counts the microphone streams obtained from
  \<^verbatim>\<open>getUserMedia\<close>. The stream of line 47 is a local constant, handed to
  \<^verbatim>\<open>createMediaStreamSource\<close>; no method of the client stops its tracks, so no event
  of a trace gives a stream back.
\<close>

definition streams_acquired :: "event list \<Rightarrow> nat" where
  "streams_acquired tr = length (filter (\<lambda>ev. ev = GetUserMedia) tr)"

definition first_failure :: "connect_env \<Rightarrow> thrown option" where
  "first_failure ce =
     (case inputContextFails ce of Some e \<Rightarrow> Some e | None \<Rightarrow>
      case outputContextFails ce of Some e \<Rightarrow> Some e | None \<Rightarrow>
      case userMediaFails ce of Some e \<Rightarrow> Some e | None \<Rightarrow>
      case liveConnectFails ce of Some e \<Rightarrow> Some e | None \<Rightarrow>
      case sessionOutcome ce of Rejected e \<Rightarrow> Some e | Resolved v \<Rightarrow> None)"

section \<open>Concrete inputs for the closed examples\<close>

text \<open>
  An environment in which the transport encoding is the identity on bytes (one character
  per byte), the decoder is the codec of section 4.1, and neither \<^verbatim>\<open>stop\<close> nor
  \<^verbatim>\<open>sendRealtimeInput\<close> throws; a second one in which both always throw.
\<close>

definition plain_env :: env where
  "plain_env = \<lparr>base64ToBytes = (\<lambda>s. Inr (map of_char s)),
     decodeAudioData = decode,
     createPcmBlob = (\<lambda>xs. map (\<lambda>b. char_of (unat b)) (encode xs)),
     stopFails = (\<lambda>h. None), sendFails = (\<lambda>h. None)\<rparr>"

definition hostile_env :: env where
  "hostile_env = plain_env\<lparr>stopFails := (\<lambda>h. Some (Error ''InvalidStateError'')),
     sendFails := (\<lambda>h. Some (Error ''WebSocket is closed''))\<rparr>"

definition the_session :: session_obj where
  "the_session = \<lparr>sid = 100, closeMethod = Returns\<rparr>"

definition all_fine :: connect_env where
  "all_fine = \<lparr>inputContextFails = None, outputContextFails = None, userMediaFails = None,
     liveConnectFails = None, sessionOutcome = Resolved the_session\<rparr>"

definition puck :: LiveConfig where
  "puck = \<lparr>voiceName = Puck, systemInstruction = ''Be brief.''\<rparr>"

definition silence :: "nat \<Rightarrow> audio_buffer" where
  "silence n = \<lparr>samples = replicate n 0, sampleRate = 24000, numberOfChannels = 1\<rparr>"

definition audio_message :: "bool \<Rightarrow> string \<Rightarrow> LiveServerMessage" where
  "audio_message flag payload =
     \<lparr>serverContent = Some \<lparr>interrupted = Some flag,
        modelTurn = Some \<lparr>parts = Some [\<lparr>inlineData = Some \<lparr>data = Some payload\<rparr>\<rparr>]\<rparr>\<rparr>\<rparr>"

definition empty_message :: LiveServerMessage where
  "empty_message = \<lparr>serverContent = None\<rparr>"

definition active_state :: "client \<times> world" where
  "active_state = snd (connect plain_env all_fine puck (new_client, new_world))"

definition playing_state :: "client \<times> world" where
  "playing_state = snd (scheduleAudioChunk 0 (silence 24000) active_state)"

definition pcm_buffer :: "string \<Rightarrow> audio_buffer" where
  "pcm_buffer payload = \<lparr>samples = int16_samples (map of_char payload), sampleRate = 24000,
     numberOfChannels = 1\<rparr>"

definition refused :: connect_env where
  "refused = all_fine\<lparr>sessionOutcome := Rejected (Error ''handshake failed'')\<rparr>"

definition new_app :: app where
  "new_app = \<lparr>status = Disconnected, config = puck, error = None,
     userAnalyser_ui = None, aiAnalyser_ui = None\<rparr>"

definition first_session_played :: "client \<times> world" where
  "first_session_played = snd (onmessage plain_env 5 (audio_message False ''abcd'') active_state)"

definition reconnected :: "client \<times> world" where
  "reconnected = snd (connect plain_env all_fine puck (snd (disconnect plain_env first_session_played)))"

definition stream_closed_state :: "client \<times> world" where
  "stream_closed_state = snd (onclose active_state)"

definition connecting_state :: "client \<times> world" where
  "connecting_state = snd (connect_open all_fine puck (new_client, new_world))"

definition app_connected :: "app \<times> client \<times> world" where
  "app_connected = handleConnect plain_env all_fine (new_app, new_client, new_world)"

section \<open>Codec lemmas\<close>

lemma from_le_le_bytes: "from_le (ucast v) (ucast (drop_bit 8 v)) = (v :: int16)"
  unfolding from_le_def
  by (rule bit_word_eqI) (auto simp: bit_simps)

lemma length_encode: "length (encode ss) = 2 * length ss"
  by (induction ss) (simp_all add: encode_def le_bytes_def)

lemma int16_samples_encode:
  "int16_samples (encode ss) = map (\<lambda>s. real_of_int (sint (to_int16 s)) / 32768) ss"
  by (induction ss) (simp_all add: encode_def le_bytes_def from_le_le_bytes)

lemma trunc_near: "\<bar>real_of_int (trunc x) - x\<bar> < 1"
  unfolding trunc_def by (auto; linarith)

lemma sint_to_int16:
  "sint (to_int16 s) = max (- 32768) (min 32767 (trunc (clamp_sample s * 32768)))"
  unfolding to_int16_def
  by (simp add: sint_sbintrunc' signed_take_bit_int_eq_self)

lemma quantise_close:
  assumes "- 1 \<le> s" and "s \<le> 1"
  shows "\<bar>real_of_int (sint (to_int16 s)) / 32768 - s\<bar> \<le> 1 / 32768"
proof -
  define x where "x = s * 32768"
  define q where "q = max (- 32768) (min 32767 (trunc x))"
  have cl: "clamp_sample s = s"
    using assms by (simp add: clamp_sample_def)
  have xb: "- 32768 \<le> x" "x \<le> 32768"
    using assms by (simp_all add: x_def)
  have near: "\<bar>real_of_int (trunc x) - x\<bar> < 1"
    by (rule trunc_near)
  have tb: "- 32768 \<le> trunc x" "trunc x \<le> 32768"
    using xb unfolding trunc_def
    by (auto simp: le_floor_iff ceiling_le_iff floor_le_iff le_ceiling_iff; linarith)+
  have "\<bar>real_of_int q - x\<bar> \<le> 1"
  proof (cases "trunc x = 32768")
    case True
    then have "32768 \<le> x"
      unfolding trunc_def by (auto split: if_splits simp: floor_eq_iff ceiling_eq_iff)
    with xb have "x = 32768" by simp
    moreover have "q = 32767" using True by (simp add: q_def)
    ultimately show ?thesis by simp
  next
    case False
    with tb have "q = trunc x" by (simp add: q_def)
    with near show ?thesis by simp
  qed
  moreover have "sint (to_int16 s) = q"
    by (simp add: sint_to_int16 cl q_def x_def)
  ultimately have "\<bar>real_of_int (sint (to_int16 s)) - s * 32768\<bar> \<le> 1"
    by (simp add: x_def)
  then show ?thesis
    by (simp add: field_simps abs_le_iff)
qed

section \<open>Execution lemmas\<close>

lemma ret_apply: "ret v (c, w) = (Inr v, (c, w))"
  by (simp add: ret_def)

lemma throw_apply: "throw e (c, w) = (Inl e, (c, w))"
  by (simp add: throw_def)

lemma and_then_apply:
  "and_then m f (c, w) = (case m (c, w) of (Inl e, s') \<Rightarrow> (Inl e, s') | (Inr v, s') \<Rightarrow> f v s')"
  by (simp add: and_then_def)

lemma seq_apply:
  "seq m n (c, w) = (case m (c, w) of (Inl e, s') \<Rightarrow> (Inl e, s') | (Inr v, s') \<Rightarrow> n s')"
  by (simp add: seq_def and_then_def)

lemma try_catch_apply:
  "try_catch m h (c, w) = (case m (c, w) of (Inl e, s') \<Rightarrow> h e s' | (Inr v, s') \<Rightarrow> (Inr v, s'))"
  by (simp add: try_catch_def)

lemma self_apply: "self (c, w) = (Inr c, (c, w))"
  by (simp add: self_def)

lemma assign_apply: "assign f (c, w) = (Inr (), (f c, w))"
  by (simp add: assign_def)

lemma emit_apply: "emit e (c, w) = (Inr (), (c, w\<lparr>trace := trace w @ [e]\<rparr>))"
  by (simp add: emit_def)

lemma new_object_apply: "new_object (c, w) = (Inr (fresh w), (c, w\<lparr>fresh := Suc (fresh w)\<rparr>))"
  by (simp add: new_object_def)

lemma lift_apply: "lift r (c, w) = (case r of Inl e \<Rightarrow> (Inl e, (c, w)) | Inr v \<Rightarrow> (Inr v, (c, w)))"
  by (simp add: lift_def ret_def throw_def split: sum.splits)

lemmas prog_simps = ret_apply throw_apply and_then_apply seq_apply try_catch_apply self_apply
  assign_apply emit_apply new_object_apply lift_apply

lemma source_stop_apply:
  "source_stop env source (c, w) =
     (case stopFails env source of
        Some e \<Rightarrow> (Inl e, (c, w))
      | None \<Rightarrow> (Inr (), (c, w\<lparr>trace := trace w @ [SourceStop source]\<rparr>)))"
  by (simp add: source_stop_def prog_simps split: option.splits)

lemma for_each_emits:
  assumes "\<And>x c w. f x (c, w) = (Inr (), (c, w\<lparr>trace := trace w @ g x\<rparr>))"
  shows "for_each xs f (c, w) = (Inr (), (c, w\<lparr>trace := trace w @ concat (map g xs)\<rparr>))"
proof (induction xs arbitrary: w)
  case Nil
  show ?case by (simp add: ret_apply)
next
  case (Cons x xs)
  show ?case
    by (simp add: seq_apply assms Cons.IH)
qed

lemma stop_loop:
  "for_each ss (\<lambda>source. try_catch (source_stop env source) (\<lambda>e. ret ())) (c, w) =
     (Inr (), (c, w\<lparr>trace := trace w @
        map SourceStop (filter (\<lambda>s. stopFails env s = None) ss)\<rparr>))"
proof -
  have body: "try_catch (source_stop env x) (\<lambda>e. ret ()) (c, w) =
      (Inr (), (c, w\<lparr>trace := trace w @ (if stopFails env x = None then [SourceStop x] else [])\<rparr>))"
    for x c w
    by (cases "stopFails env x") (simp_all add: source_stop_apply prog_simps)
  have "concat (map (\<lambda>x. if stopFails env x = None then [SourceStop x] else []) ss) =
      map SourceStop (filter (\<lambda>s. stopFails env s = None) ss)"
    by (induction ss) simp_all
  with for_each_emits [of "\<lambda>source. try_catch (source_stop env source) (\<lambda>e. ret ())"
      "\<lambda>x. if stopFails env x = None then [SourceStop x] else []" ss c w, OF body]
  show ?thesis by simp
qed

lemma stopAllSources_run:
  "stopAllSources env (c, w) =
     (Inr (), (c\<lparr>sources := []\<rparr>, w\<lparr>trace := trace w @
        map SourceStop (filter (\<lambda>s. stopFails env s = None) (sources c))\<rparr>))"
  unfolding stopAllSources_def
  by (simp add: prog_simps stop_loop)

lemma interrupt_run:
  "interrupt env (c, w) =
     (Inr (), (c\<lparr>sources := [], nextStartTime := 0\<rparr>, w\<lparr>trace := trace w @
        map SourceStop (filter (\<lambda>s. stopFails env s = None) (sources c))\<rparr>))"
  unfolding interrupt_def
  by (simp add: prog_simps stopAllSources_run)

lemma schedule_run:
  assumes "outputAudioContext c \<noteq> None" and "outputGain c \<noteq> None"
  shows "scheduleAudioChunk now b (c, w) =
     (Inr (), (c\<lparr>nextStartTime := max (nextStartTime c) now + duration b,
                  sources := set_add (fresh w) (sources c)\<rparr>,
               w\<lparr>fresh := Suc (fresh w),
                 trace := trace w @ [SourceStart (fresh w) (max (nextStartTime c) now)]\<rparr>))"
proof -
  from assms obtain x g where "outputAudioContext c = Some x" "outputGain c = Some g"
    by auto
  then show ?thesis
    unfolding scheduleAudioChunk_def
    by (simp add: prog_simps max_def)
qed

lemma schedule_skip:
  assumes "outputAudioContext c = None \<or> outputGain c = None"
  shows "scheduleAudioChunk now b (c, w) = (Inr (), (c, w))"
  using assms unfolding scheduleAudioChunk_def
  by (auto simp add: prog_simps)

lemma node_disconnect_apply:
  "node_disconnect n (c, w) = (Inr (), (c, w\<lparr>trace := trace w @ opt_event DisconnectNode n\<rparr>))"
  by (cases n) (simp_all add: node_disconnect_def opt_event_def prog_simps)

lemma context_close_apply:
  "context_close x (c, w) = (Inr (), (c, w\<lparr>trace := trace w @ opt_event CloseContext x\<rparr>))"
  by (cases x) (simp_all add: context_close_def opt_event_def prog_simps)

lemma session_close_step:
  "(case s of
      Some sess \<Rightarrow> try_catch (session_close sess) (\<lambda>e. emit (Log ''Error closing session''))
    | None \<Rightarrow> ret ()) (c, w) =
   (Inr (), (c, w\<lparr>trace := trace w @ close_events s\<rparr>))"
proof (cases s)
  case None
  then show ?thesis by (simp add: close_events_def prog_simps)
next
  case (Some sess)
  then show ?thesis
    by (cases "closeMethod sess") (simp_all add: close_events_def session_close_def prog_simps)
qed

lemma disconnect_run:
  "disconnect env (c, w) =
     (Inr (), (c\<lparr>sources := [], session := None, sessionPromise := None,
                  inputAudioContext := None, outputAudioContext := None,
                  processor := None, inputSource := None\<rparr>,
               w\<lparr>trace := trace w @ teardown_events env c\<rparr>))"
  unfolding disconnect_def
  by (simp add: prog_simps stopAllSources_run session_close_step node_disconnect_apply
      context_close_apply teardown_events_def)

lemma new_AudioContext_apply:
  "new_AudioContext fails rate (c, w) =
     (case fails of
        Some e \<Rightarrow> (Inl e, (c, w))
      | None \<Rightarrow> (Inr (fresh w), (c, w\<lparr>fresh := Suc (fresh w),
                  trace := trace w @ [NewAudioContext (fresh w) rate]\<rparr>)))"
  by (simp add: new_AudioContext_def prog_simps split: option.splits)

lemma create_node_apply:
  "create_node (c, w) =
     (Inr (fresh w), (c, w\<lparr>fresh := Suc (fresh w), trace := trace w @ [CreateNode (fresh w)]\<rparr>))"
  by (simp add: create_node_def prog_simps)

lemma getUserMedia_apply:
  "getUserMedia fails (c, w) =
     (case fails of
        Some e \<Rightarrow> (Inl e, (c, w))
      | None \<Rightarrow> (Inr (), (c, w\<lparr>trace := trace w @ [GetUserMedia]\<rparr>)))"
  by (simp add: getUserMedia_def prog_simps split: option.splits)

lemma live_connect_apply:
  "live_connect fails cfg (c, w) =
     (case fails of
        Some e \<Rightarrow> (Inl e, (c, w))
      | None \<Rightarrow> (Inr (fresh w), (c, w\<lparr>fresh := Suc (fresh w),
                  trace := trace w @ [LiveConnect (fresh w) cfg]\<rparr>)))"
  by (simp add: live_connect_def prog_simps split: option.splits)

lemma settle_apply:
  "settle p outcome (c, w) = (Inr (), (c, w\<lparr>settled := settled w @ [(p, outcome)]\<rparr>))"
  by (simp add: settle_def)

lemma await_apply:
  "await outcome (c, w) =
     (case outcome of Resolved v \<Rightarrow> (Inr v, (c, w)) | Rejected e \<Rightarrow> (Inl e, (c, w)))"
  by (simp add: await_def prog_simps split: settlement.splits)

lemmas connect_simps = connect_def connect_open_def connect_await_def connect_catch_def
  new_AudioContext_apply create_node_apply getUserMedia_apply live_connect_apply settle_apply
  await_apply disconnect_run prog_simps

lemma opt_event_simps [simp]:
  "opt_event f None = []"
  "opt_event f (Some x) = [f x]"
  by (simp_all add: opt_event_def)

lemma fold_node_step_opt [simp]:
  "fold node_step (opt_event DisconnectNode h) [] = []"
  "fold node_step (opt_event CloseContext h) acc = acc"
  "fold context_step (opt_event DisconnectNode h) acc = acc"
  "fold context_step (opt_event CloseContext h) [] = []"
  by (cases h; simp add: node_step_def context_step_def)+

lemma fold_step_stops [simp]:
  "fold node_step (map SourceStop ss) acc = acc"
  "fold context_step (map SourceStop ss) acc = acc"
  by (induction ss) (simp_all add: node_step_def context_step_def)

lemma fold_step_close_events [simp]:
  "fold node_step (close_events s) acc = acc"
  "fold context_step (close_events s) acc = acc"
  by (simp_all add: close_events_def node_step_def context_step_def
      split: option.splits close_method.splits)

lemma reported_append [simp]: "reported (a @ b) = reported a @ reported b"
  by (induction a) (simp_all split: event.splits)

lemma reported_quiet [simp]:
  "reported (map SourceStop ss) = []"
  "reported (close_events s) = []"
  "reported (opt_event DisconnectNode h) = []"
  "reported (opt_event CloseContext h) = []"
proof -
  show "reported (map SourceStop ss) = []"
    by (induction ss) simp_all
  show "reported (close_events s) = []"
    by (simp add: close_events_def split: option.splits close_method.splits)
  show "reported (opt_event DisconnectNode h) = []"
    by (cases h) simp_all
  show "reported (opt_event CloseContext h) = []"
    by (cases h) simp_all
qed

lemma connect_failure:
  assumes idle: "is_idle c"
    and clean: "open_contexts (trace w) = []" "wired_nodes (trace w) = []"
    and fails: "inputContextFails ce = Some e \<or>
       (inputContextFails ce = None \<and> outputContextFails ce = Some e) \<or>
       (inputContextFails ce = None \<and> outputContextFails ce = None \<and> userMediaFails ce = Some e) \<or>
       (inputContextFails ce = None \<and> outputContextFails ce = None \<and> userMediaFails ce = None \<and>
          liveConnectFails ce = Some e) \<or>
       (inputContextFails ce = None \<and> outputContextFails ce = None \<and> userMediaFails ce = None \<and>
          liveConnectFails ce = None \<and> sessionOutcome ce = Rejected e)"
  shows "\<exists>c' w'. connect env ce cfg (c, w) = (Inr (), (c', w')) \<and>
           is_idle c' \<and> open_contexts (trace w') = [] \<and> wired_nodes (trace w') = [] \<and>
           reported (trace w') = reported (trace w) @
             [case e of Error m \<Rightarrow> Error m | NonError \<Rightarrow> Error ''Failed to connect'']"
  using fails
proof (elim disjE conjE)
  assume "inputContextFails ce = Some e"
  then show ?thesis
    using idle clean
    by (simp add: connect_simps teardown_events_def is_idle_def open_contexts_def
        wired_nodes_def node_step_def context_step_def)
next
  assume "inputContextFails ce = None" "outputContextFails ce = Some e"
  then show ?thesis
    using idle clean
    by (simp add: connect_simps teardown_events_def is_idle_def open_contexts_def
        wired_nodes_def node_step_def context_step_def)
next
  assume "inputContextFails ce = None" "outputContextFails ce = None" "userMediaFails ce = Some e"
  then show ?thesis
    using idle clean
    by (simp add: connect_simps teardown_events_def is_idle_def open_contexts_def
        wired_nodes_def node_step_def context_step_def)
next
  assume "inputContextFails ce = None" "outputContextFails ce = None" "userMediaFails ce = None"
    "liveConnectFails ce = Some e"
  then show ?thesis
    using idle clean
    by (simp add: connect_simps teardown_events_def is_idle_def open_contexts_def
        wired_nodes_def node_step_def context_step_def)
next
  assume "inputContextFails ce = None" "outputContextFails ce = None" "userMediaFails ce = None"
    "liveConnectFails ce = None" "sessionOutcome ce = Rejected e"
  then show ?thesis
    using idle clean
    by (simp add: connect_simps teardown_events_def is_idle_def open_contexts_def
        wired_nodes_def node_step_def context_step_def)
qed

lemma onmessage_decoded:
  assumes "base64Audio m = Some payload" and "payload \<noteq> []"
    and "base64ToBytes env payload = Inr bytes"
    and "decodeAudioData env bytes 24000 1 = Inr buf"
    and "outputAudioContext c \<noteq> None" and "outputGain c \<noteq> None"
  shows "onmessage env now m (c, w) =
     (if is_interrupted m
      then (Inr (), (c\<lparr>sources := [fresh w], nextStartTime := max 0 now + duration buf\<rparr>,
              w\<lparr>fresh := Suc (fresh w),
                trace := trace w @
                  map SourceStop (filter (\<lambda>s. stopFails env s = None) (sources c)) @
                  [SourceStart (fresh w) (max 0 now)]\<rparr>))
      else scheduleAudioChunk now buf (c, w))"
proof -
  from assms obtain x g where "outputAudioContext c = Some x" "outputGain c = Some g"
    by auto
  with assms(1-4) show ?thesis
    unfolding onmessage_def
    by (simp add: prog_simps interrupt_run schedule_run set_add_def)
qed

lemma onmessage_failed:
  assumes "base64Audio m = Some payload" and "payload \<noteq> []"
    and "base64ToBytes env payload = Inl e \<or>
         (\<exists>bytes. base64ToBytes env payload = Inr bytes \<and>
                  decodeAudioData env bytes 24000 1 = Inl e)"
    and "outputAudioContext c \<noteq> None" and "outputGain c \<noteq> None"
  shows "onmessage env now m (c, w) =
     (if is_interrupted m
      then (Inr (), (c\<lparr>sources := [], nextStartTime := 0\<rparr>,
              w\<lparr>trace := trace w @
                  map SourceStop (filter (\<lambda>s. stopFails env s = None) (sources c)) @
                  [Log ''Error decoding audio'']\<rparr>))
      else (Inr (), (c, w\<lparr>trace := trace w @ [Log ''Error decoding audio'']\<rparr>)))"
proof -
  from assms obtain x g where "outputAudioContext c = Some x" "outputGain c = Some g"
    by auto
  with assms(1-3) show ?thesis
    unfolding onmessage_def
    by (auto simp add: prog_simps interrupt_run)
qed

lemma onmessage_no_output:
  assumes "outputAudioContext c = None \<or> outputGain c = None"
  shows "onmessage env now m (c, w) =
     (if is_interrupted m then interrupt env (c, w) else (Inr (), (c, w)))"
  using assms unfolding onmessage_def
  by (auto simp add: prog_simps interrupt_run split: option.splits)

lemma onmessage_no_payload:
  assumes "base64Audio m = None \<or> base64Audio m = Some []"
  shows "onmessage env now m (c, w) =
     (if is_interrupted m then interrupt env (c, w) else (Inr (), (c, w)))"
  using assms unfolding onmessage_def
  by (auto simp add: prog_simps interrupt_run split: option.splits)

lemma connect_success:
  assumes "first_failure ce = None"
  shows "\<exists>sess. sessionOutcome ce = Resolved sess \<and>
     connect env ce cfg (c, w) =
     (Inr (), (c\<lparr>inputAudioContext := Some (fresh w),
                  outputAudioContext := Some (Suc (fresh w)),
                  userAnalyser := Some (Suc (Suc (fresh w))),
                  aiAnalyser := Some (Suc (Suc (Suc (fresh w)))),
                  outputGain := Some (Suc (Suc (Suc (Suc (fresh w))))),
                  inputSource := Some (Suc (Suc (Suc (Suc (Suc (fresh w)))))),
                  processor := Some (Suc (Suc (Suc (Suc (Suc (Suc (fresh w))))))),
                  sessionPromise := Some (Suc (Suc (Suc (Suc (Suc (Suc (Suc (fresh w)))))))),
                  session := Some sess\<rparr>,
               w\<lparr>fresh := (Suc (Suc (Suc (Suc (Suc (Suc (Suc (Suc (fresh w))))))))),
                 trace := trace w @
                   [NewAudioContext (fresh w) 16000, NewAudioContext (Suc (fresh w)) 24000,
                    CreateNode (Suc (Suc (fresh w))), CreateNode (Suc (Suc (Suc (fresh w)))),
                    CreateNode (Suc (Suc (Suc (Suc (fresh w))))), GetUserMedia,
                    CreateNode (Suc (Suc (Suc (Suc (Suc (fresh w)))))), CreateNode (Suc (Suc (Suc (Suc (Suc (Suc (fresh w))))))),
                    LiveConnect (Suc (Suc (Suc (Suc (Suc (Suc (Suc (fresh w)))))))) cfg],
                 settled := settled w @ [((Suc (Suc (Suc (Suc (Suc (Suc (Suc (fresh w)))))))), Resolved sess)]\<rparr>))"
  using assms
  by (auto simp add: first_failure_def connect_simps
      split: option.splits settlement.splits)

lemma active_state_eq:
  "active_state =
     (\<lparr>inputAudioContext = Some 0, outputAudioContext = Some 1, inputSource = Some 5,
        processor = Some 6, outputGain = Some 4, nextStartTime = 0, sources = [],
        userAnalyser = Some 2, aiAnalyser = Some 3, session = Some the_session,
        sessionPromise = Some 7\<rparr>,
      \<lparr>fresh = 8,
        trace = [NewAudioContext 0 16000, NewAudioContext 1 24000, CreateNode 2, CreateNode 3,
                 CreateNode 4, GetUserMedia, CreateNode 5, CreateNode 6, LiveConnect 7 puck],
        settled = [(7, Resolved the_session)], reactions = []\<rparr>)"
proof -
  have "first_failure all_fine = None"
    by (simp add: first_failure_def all_fine_def)
  from connect_success [OF this, of plain_env puck new_client new_world]
  show ?thesis
    by (simp add: active_state_def all_fine_def new_client_def new_world_def)
qed

lemma duration_silence: "duration (silence n) = real n / 24000"
  by (simp add: duration_def silence_def)

lemma onended_apply:
  "onended source (c, w) = (Inr (), (c\<lparr>sources := set_delete source (sources c)\<rparr>, w))"
  by (simp add: onended_def assign_apply)

lemma for_each_onended:
  "for_each xs onended (c, w) = (Inr (), (c\<lparr>sources := fold set_delete xs (sources c)\<rparr>, w))"
proof (induction xs arbitrary: c)
  case Nil
  show ?case by (simp add: ret_apply)
next
  case (Cons x xs)
  show ?case by (simp add: seq_apply onended_apply Cons.IH)
qed

lemma fold_removeAll: "fold removeAll xs ys = filter (\<lambda>y. y \<notin> set xs) ys"
proof (induction xs arbitrary: ys)
  case Nil
  show ?case by simp
next
  case (Cons x xs)
  have "filter (\<lambda>y. y \<notin> set xs) (removeAll x ys) = filter (\<lambda>y. y \<notin> set (x # xs)) ys"
    by (induction ys) auto
  then show ?case
    by (simp add: Cons.IH)
qed

lemma fold_set_delete: "fold set_delete xs ys = filter (\<lambda>y. y \<notin> set xs) ys"
proof -
  have "set_delete = (removeAll :: 'a \<Rightarrow> 'a list \<Rightarrow> 'a list)"
    by (intro ext) (simp add: set_delete_def)
  then show ?thesis
    by (simp add: fold_removeAll)
qed

lemma all_ended: "for_each (sources c) onended (c, w) = (Inr (), (c\<lparr>sources := []\<rparr>, w))"
  by (simp add: for_each_onended fold_set_delete)


lemma playing_state_eq:
  "playing_state =
     ((fst active_state)\<lparr>nextStartTime := 1, sources := [8]\<rparr>,
      (snd active_state)\<lparr>fresh := 9, trace := trace (snd active_state) @ [SourceStart 8 0]\<rparr>)"
  by (simp add: playing_state_def active_state_eq schedule_run duration_silence set_add_def)


lemma audio_message_simps:
  "base64Audio (audio_message flag payload) = Some payload"
  "is_interrupted (audio_message flag payload) = flag"
  "base64Audio empty_message = None"
  "is_interrupted empty_message = False"
  by (simp_all add: base64Audio_def is_interrupted_def audio_message_def empty_message_def
      first_part_def)

lemma length_int16_samples: "length (int16_samples bs) = length bs div 2"
  by (induction bs rule: int16_samples.induct) simp_all

lemma plain_env_fields:
  "base64ToBytes plain_env payload = Inr (map of_char payload)"
  "decodeAudioData plain_env = decode"
  "stopFails plain_env = (\<lambda>h. None)"
  "sendFails plain_env = (\<lambda>h. None)"
  by (simp_all add: plain_env_def)

lemma plain_env_decodes:
  "even (length payload) \<Longrightarrow>
     decodeAudioData plain_env (map of_char payload) 24000 1 = Inr (pcm_buffer payload)"
  "odd (length payload) \<Longrightarrow>
     decodeAudioData plain_env (map of_char payload) 24000 1 = Inl (Error ''MalformedAudioError'')"
  by (simp_all add: plain_env_fields decode_def pcm_buffer_def)

lemma duration_pcm_buffer: "duration (pcm_buffer payload) = real (length payload div 2) / 24000"
  by (simp add: duration_def pcm_buffer_def length_int16_samples)

lemma disconnect_keeps_cursor:
  "nextStartTime (fst (snd (disconnect env (c, w)))) = nextStartTime c"
  by (simp add: disconnect_run)

lemma connect_keeps_cursor:
  "nextStartTime (fst (snd (connect env ce cfg (c, w)))) = nextStartTime c"
proof (cases "inputContextFails ce")
  case (Some e)
  then show ?thesis by (simp add: connect_simps)
next
  case None
  note a = None
  show ?thesis
  proof (cases "outputContextFails ce")
    case (Some e)
    with a show ?thesis by (simp add: connect_simps)
  next
    case None
    note b = None
    show ?thesis
    proof (cases "userMediaFails ce")
      case (Some e)
      with a b show ?thesis by (simp add: connect_simps)
    next
      case None
      note c = None
      show ?thesis
      proof (cases "liveConnectFails ce")
        case (Some e)
        with a b c show ?thesis by (simp add: connect_simps)
      next
        case None
        with a b c show ?thesis
          by (cases "sessionOutcome ce") (simp_all add: connect_simps)
      qed
    qed
  qed
qed

lemma connect_all_fine:
  "connect env all_fine cfg (c, w) =
     (Inr (), (c\<lparr>inputAudioContext := Some (fresh w),
                  outputAudioContext := Some (Suc (fresh w)),
                  userAnalyser := Some (Suc (Suc (fresh w))),
                  aiAnalyser := Some (Suc (Suc (Suc (fresh w)))),
                  outputGain := Some (Suc (Suc (Suc (Suc (fresh w))))),
                  inputSource := Some (Suc (Suc (Suc (Suc (Suc (fresh w)))))),
                  processor := Some (Suc (Suc (Suc (Suc (Suc (Suc (fresh w))))))),
                  sessionPromise := Some (Suc (Suc (Suc (Suc (Suc (Suc (Suc (fresh w)))))))),
                  session := Some the_session\<rparr>,
               w\<lparr>fresh := Suc (Suc (Suc (Suc (Suc (Suc (Suc (Suc (fresh w)))))))),
                 trace := trace w @
                   [NewAudioContext (fresh w) 16000, NewAudioContext (Suc (fresh w)) 24000,
                    CreateNode (Suc (Suc (fresh w))), CreateNode (Suc (Suc (Suc (fresh w)))),
                    CreateNode (Suc (Suc (Suc (Suc (fresh w))))), GetUserMedia,
                    CreateNode (Suc (Suc (Suc (Suc (Suc (fresh w)))))), CreateNode (Suc (Suc (Suc (Suc (Suc (Suc (fresh w))))))),
                    LiveConnect (Suc (Suc (Suc (Suc (Suc (Suc (Suc (fresh w)))))))) cfg],
                 settled := settled w @ [(Suc (Suc (Suc (Suc (Suc (Suc (Suc (fresh w))))))), Resolved the_session)]\<rparr>))"
proof -
  have "first_failure all_fine = None"
    by (simp add: first_failure_def all_fine_def)
  from connect_success [OF this, of env cfg c w] show ?thesis
    by (simp add: all_fine_def)
qed

lemma onmessage_plain_audio:
  assumes "even (length payload)" and "payload \<noteq> []"
    and "outputAudioContext c \<noteq> None" and "outputGain c \<noteq> None"
  shows "onmessage plain_env now (audio_message flag payload) (c, w) =
     (if flag
      then (Inr (), (c\<lparr>sources := [fresh w],
                       nextStartTime := max 0 now + duration (pcm_buffer payload)\<rparr>,
              w\<lparr>fresh := Suc (fresh w),
                trace := trace w @ map SourceStop (sources c) @
                  [SourceStart (fresh w) (max 0 now)]\<rparr>))
      else scheduleAudioChunk now (pcm_buffer payload) (c, w))"
  using onmessage_decoded [OF audio_message_simps(1) [of flag payload] assms(2)
      plain_env_fields(1) plain_env_decodes(1) [OF assms(1)] assms(3,4),
      where now = now and w = w]
  by (simp add: audio_message_simps plain_env_fields)

lemmas run_simps = onmessage_plain_audio schedule_run disconnect_run connect_all_fine
  interrupt_run teardown_events_def close_events_def the_session_def plain_env_fields
  duration_pcm_buffer duration_silence set_add_def active_state_eq

lemma first_session_played_eq:
  "first_session_played =
     ((fst active_state)\<lparr>nextStartTime := 5 + 1 / 12000, sources := [8]\<rparr>,
      (snd active_state)\<lparr>fresh := 9, trace := trace (snd active_state) @ [SourceStart 8 5]\<rparr>)"
  by (simp add: first_session_played_def run_simps)

lemma reconnected_eq:
  "reconnected =
     (\<lparr>inputAudioContext = Some 9, outputAudioContext = Some 10, inputSource = Some 14,
        processor = Some 15, outputGain = Some 13, nextStartTime = 5 + 1 / 12000, sources = [],
        userAnalyser = Some 11, aiAnalyser = Some 12, session = Some the_session,
        sessionPromise = Some 16\<rparr>,
      \<lparr>fresh = 17,
        trace = trace (snd first_session_played) @
          [SourceStop 8, SessionClose 100, DisconnectNode 6, DisconnectNode 5, DisconnectNode 2,
           DisconnectNode 3, DisconnectNode 4, CloseContext 0, CloseContext 1,
           NewAudioContext 9 16000, NewAudioContext 10 24000, CreateNode 11, CreateNode 12,
           CreateNode 13, GetUserMedia, CreateNode 14, CreateNode 15, LiveConnect 16 puck],
        settled = [(7, Resolved the_session), (16, Resolved the_session)], reactions = []\<rparr>)"
  by (simp add: reconnected_def first_session_played_eq run_simps)

lemma onclose_apply:
  "onclose (c, w) =
     (Inr (), (c, w\<lparr>trace := trace w @ [Log ''Gemini Live Connection Closed'', OnDisconnect]\<rparr>))"
  by (simp add: onclose_def prog_simps)

lemma onerror_apply:
  "onerror msg (c, w) =
     (Inr (), (c, w\<lparr>trace := trace w @
        [Log ''Gemini Live Error'',
         OnError (Error (case msg of None \<Rightarrow> ''Unknown Live API Error''
                          | Some m \<Rightarrow> if m = [] then ''Unknown Live API Error'' else m))]\<rparr>))"
  by (simp add: onerror_def prog_simps)

lemma onaudioprocess_apply:
  "onaudioprocess env xs (c, w) =
     (Inr (), (c, case sessionPromise c of
                    None \<Rightarrow> w
                  | Some p \<Rightarrow> w\<lparr>reactions := reactions w @ [(p, createPcmBlob env xs)]\<rparr>))"
  by (simp add: onaudioprocess_def add_reaction_def prog_simps split: option.splits)

lemma send_reaction_apply:
  "send_reaction env outcome pcmBlob (c, w) =
     (Inr (), (c, w\<lparr>trace := trace w @ [reaction_event env outcome pcmBlob]\<rparr>))"
  by (simp add: send_reaction_def sendRealtimeInput_def await_apply reaction_event_def prog_simps
      split: settlement.splits option.splits)

lemma run_reactions_apply:
  "run_reactions env (c, w) =
     (Inr (), (c, w\<lparr>reactions := filter (\<lambda>r. map_of (settled w) (fst r) = None) (reactions w),
                 trace := trace w @
                   concat (map (\<lambda>r. case map_of (settled w) (fst r) of
                                       Some outcome \<Rightarrow> [reaction_event env outcome (snd r)]
                                     | None \<Rightarrow> [])
                     (filter (\<lambda>r. map_of (settled w) (fst r) \<noteq> None) (reactions w)))\<rparr>))"
proof -
  have body: "(case map_of (settled w) (fst r) of
          Some outcome \<Rightarrow> send_reaction env outcome (snd r)
        | None \<Rightarrow> ret ()) (c', w') =
      (Inr (), (c', w'\<lparr>trace := trace w' @
         (case map_of (settled w) (fst r) of
            Some outcome \<Rightarrow> [reaction_event env outcome (snd r)]
          | None \<Rightarrow> [])\<rparr>))" for r c' w'
    by (cases "map_of (settled w) (fst r)") (simp_all add: send_reaction_apply ret_apply)
  show ?thesis
    unfolding run_reactions_def
    by (simp add: Let_def for_each_emits [where f = "\<lambda>r. case map_of (settled w) (fst r) of
          Some outcome \<Rightarrow> send_reaction env outcome (snd r)
        | None \<Rightarrow> ret ()", OF body])
qed


lemma connecting_state_eq:
  "connecting_state =
     (\<lparr>inputAudioContext = Some 0, outputAudioContext = Some 1, inputSource = Some 5,
        processor = Some 6, outputGain = Some 4, nextStartTime = 0, sources = [],
        userAnalyser = Some 2, aiAnalyser = Some 3, session = None,
        sessionPromise = Some 7\<rparr>,
      \<lparr>fresh = 8,
        trace = [NewAudioContext 0 16000, NewAudioContext 1 24000, CreateNode 2, CreateNode 3,
                 CreateNode 4, GetUserMedia, CreateNode 5, CreateNode 6, LiveConnect 7 puck],
        settled = [], reactions = []\<rparr>)"
  by (simp add: connecting_state_def connect_open_def new_AudioContext_apply create_node_apply
      getUserMedia_apply live_connect_apply prog_simps all_fine_def new_client_def new_world_def)

lemma app_connected_eq:
  "app_connected =
     (new_app\<lparr>status := Connected, userAnalyser_ui := Some 2, aiAnalyser_ui := Some 3\<rparr>,
      active_state)"
  by (simp add: app_connected_def handleConnect_def run_with_callbacks_def Let_def new_app_def
      connect_all_fine new_client_def new_world_def active_state_eq callback_def)

lemma handleConnect_after_failure:
  "status (fst (handleConnect plain_env refused (new_app, new_client, new_world))) = Connected \<and>
   error (fst (handleConnect plain_env refused (new_app, new_client, new_world))) =
     Some ''handshake failed'' \<and>
   is_idle (fst (snd (handleConnect plain_env refused (new_app, new_client, new_world))))"
  by (simp add: handleConnect_def run_with_callbacks_def Let_def new_app_def refused_def
      all_fine_def connect_simps teardown_events_def new_client_def new_world_def callback_def
      message_of_def is_idle_def split_beta)

lemma disconnect_leaves_idle:
  "fst (disconnect env (c, w)) = Inr ()"
  "is_idle (fst (snd (disconnect env (c, w))))"
  by (simp_all add: disconnect_run is_idle_def)

lemma disconnect_when_idle:
  assumes "is_idle c"
  shows "fst (snd (disconnect env (c, w))) = c"
    and "open_contexts (trace (snd (snd (disconnect env (c, w))))) = open_contexts (trace w)"
    and "reported (trace (snd (snd (disconnect env (c, w))))) = reported (trace w)"
  using assms
  by (simp_all add: disconnect_run is_idle_def teardown_events_def open_contexts_def)

lemma disconnect_twice:
  "fst (snd (disconnect env (snd (disconnect env (c, w))))) = fst (snd (disconnect env (c, w)))"
  by (simp add: disconnect_run)

lemma disconnect_when_active:
  "snd (disconnect plain_env playing_state) =
     ((fst playing_state)\<lparr>sources := [], session := None, sessionPromise := None,
        inputAudioContext := None, outputAudioContext := None, processor := None,
        inputSource := None\<rparr>,
      (snd playing_state)\<lparr>trace := trace (snd playing_state) @
        [SourceStop 8, SessionClose 100, DisconnectNode 6, DisconnectNode 5, DisconnectNode 2,
         DisconnectNode 3, DisconnectNode 4, CloseContext 0, CloseContext 1]\<rparr>)"
  "open_contexts (trace (snd (snd (disconnect plain_env playing_state)))) = []"
  "wired_nodes (trace (snd (snd (disconnect plain_env playing_state)))) = []"
  by (simp_all add: playing_state_eq run_simps open_contexts_def wired_nodes_def
      context_step_def node_step_def)

lemma stream_closed_state_eq:
  "stream_closed_state =
     (fst active_state,
      (snd active_state)\<lparr>trace := trace (snd active_state) @
         [Log ''Gemini Live Connection Closed'', OnDisconnect]\<rparr>)"
  by (simp add: stream_closed_state_def active_state_eq onclose_apply)

lemma connect_refused:
  "connect env refused cfg (c, w) =
     (Inr (),
      (c\<lparr>userAnalyser := Some (Suc (Suc (fresh w))), aiAnalyser := Some (Suc (Suc (Suc (fresh w)))), outputGain := Some (Suc (Suc (Suc (Suc (fresh w))))),
         sources := [], session := None, sessionPromise := None,
         inputAudioContext := None, outputAudioContext := None,
         processor := None, inputSource := None\<rparr>,
       w\<lparr>fresh := (Suc (Suc (Suc (Suc (Suc (Suc (Suc (Suc (fresh w))))))))),
         trace := trace w @
           [NewAudioContext (fresh w) 16000, NewAudioContext (Suc (fresh w)) 24000,
            CreateNode (Suc (Suc (fresh w))), CreateNode (Suc (Suc (Suc (fresh w)))), CreateNode (Suc (Suc (Suc (Suc (fresh w))))), GetUserMedia,
            CreateNode (Suc (Suc (Suc (Suc (Suc (fresh w)))))), CreateNode (Suc (Suc (Suc (Suc (Suc (Suc (fresh w))))))), LiveConnect (Suc (Suc (Suc (Suc (Suc (Suc (Suc (fresh w)))))))) cfg,
            Log ''Connection failed''] @
           map SourceStop (filter (\<lambda>s. stopFails env s = None) (sources c)) @
           close_events (session c) @
           [DisconnectNode (Suc (Suc (Suc (Suc (Suc (Suc (fresh w))))))), DisconnectNode (Suc (Suc (Suc (Suc (Suc (fresh w)))))), DisconnectNode (Suc (Suc (fresh w))), DisconnectNode (Suc (Suc (Suc (fresh w)))),
            DisconnectNode (Suc (Suc (Suc (Suc (fresh w))))), CloseContext (fresh w), CloseContext (Suc (fresh w)),
            OnError (Error ''handshake failed'')],
         settled := settled w @ [((Suc (Suc (Suc (Suc (Suc (Suc (Suc (fresh w)))))))), Rejected (Error ''handshake failed''))]\<rparr>))"
  by (simp add: refused_def all_fine_def connect_simps teardown_events_def)

text \<open>
  What the catch block of \<^verbatim>\<open>connect\<close> does achieve. From an idle client, if any step of
  the set-up throws (either audio context, the microphone request, opening the stream, or
  the session promise rejecting), \<^verbatim>\<open>connect\<close> returns normally, the client is idle
  again, every audio context created by the attempt has been closed and every node it
  created disconnected, and the error callback has been called exactly once, with the error
  thrown (or "Failed to connect" for a value that is not an Error).
\<close>

lemma failed_connect_tears_down:
  assumes "is_idle c"
    and "open_contexts (trace w) = []" and "wired_nodes (trace w) = []"
    and "first_failure ce = Some e"
  shows "\<exists>c' w'. connect env ce cfg (c, w) = (Inr (), (c', w')) \<and>
           is_idle c' \<and> open_contexts (trace w') = [] \<and> wired_nodes (trace w') = [] \<and>
           reported (trace w') = reported (trace w) @
             [case e of Error m \<Rightarrow> Error m | NonError \<Rightarrow> Error ''Failed to connect'']"
proof -
  from assms(4) have "inputContextFails ce = Some e \<or>
       (inputContextFails ce = None \<and> outputContextFails ce = Some e) \<or>
       (inputContextFails ce = None \<and> outputContextFails ce = None \<and> userMediaFails ce = Some e) \<or>
       (inputContextFails ce = None \<and> outputContextFails ce = None \<and> userMediaFails ce = None \<and>
          liveConnectFails ce = Some e) \<or>
       (inputContextFails ce = None \<and> outputContextFails ce = None \<and> userMediaFails ce = None \<and>
          liveConnectFails ce = None \<and> sessionOutcome ce = Rejected e)"
    by (simp add: first_failure_def split: option.splits settlement.splits)
  with assms(1-3) show ?thesis
    by (rule connect_failure)
qed

lemma failed_connect_tears_down_example:
  "fst (connect plain_env refused puck (new_client, new_world)) = Inr () \<and>
   is_idle (fst (snd (connect plain_env refused puck (new_client, new_world)))) \<and>
   open_contexts (trace (snd (snd (connect plain_env refused puck (new_client, new_world))))) = [] \<and>
   wired_nodes (trace (snd (snd (connect plain_env refused puck (new_client, new_world))))) = [] \<and>
   reported (trace (snd (snd (connect plain_env refused puck (new_client, new_world))))) =
     [Error ''handshake failed'']"
proof -
  have idle: "is_idle new_client"
    by (simp add: is_idle_def new_client_def)
  have clean: "open_contexts (trace new_world) = []" "wired_nodes (trace new_world) = []"
    by (simp_all add: open_contexts_def wired_nodes_def new_world_def)
  have fails: "first_failure refused = Some (Error ''handshake failed'')"
    by (simp add: first_failure_def refused_def all_fine_def)
  from failed_connect_tears_down [OF idle clean fails, of plain_env puck]
  obtain c' w' where r: "connect plain_env refused puck (new_client, new_world) = (Inr (), (c', w'))"
    "is_idle c'" "open_contexts (trace w') = []" "wired_nodes (trace w') = []"
    "reported (trace w') = reported (trace new_world) @ [Error ''handshake failed'']"
    by auto
  have "reported (trace new_world) = []"
    by (simp add: new_world_def)
  with r show ?thesis
    by simp
qed

section \<open>Claims about the codec\<close>

text \<open>
  C6. Codec round-trip: for every sequence of samples in [-1,1], the encoder writes exactly
  two bytes per sample, decoding the result succeeds, yields as many samples as went in,
  and each decoded sample is within one quantisation step (1/32768) of the original.
\<close>

theorem codec_roundtrip:
  assumes "\<forall>s \<in> set ss. - 1 \<le> s \<and> s \<le> 1"
  shows "length (encode ss) = 2 * length ss \<and>
         (\<exists>b. decode (encode ss) rate channels = Inr b \<and>
              samples b = map (\<lambda>s. real_of_int (sint (to_int16 s)) / 32768) ss \<and>
              length (samples b) = length ss \<and>
              (\<forall>i < length ss. \<bar>samples b ! i - ss ! i\<bar> \<le> 1 / 32768))"
proof -
  have even: "\<not> odd (length (encode ss))"
    by (simp add: length_encode)
  have close: "\<bar>real_of_int (sint (to_int16 (ss ! i))) / 32768 - ss ! i\<bar> \<le> 1 / 32768"
    if "i < length ss" for i
  proof -
    from that have "ss ! i \<in> set ss" by simp
    with assms have "- 1 \<le> ss ! i" "ss ! i \<le> 1" by auto
    then show ?thesis by (rule quantise_close)
  qed
  show ?thesis
    using even close
    by (simp add: decode_def length_encode int16_samples_encode)
qed

theorem codec_roundtrip_witness:
  "length (encode [1 / 2, - 1, 1]) = 6 \<and>
   (\<exists>b. decode (encode [1 / 2, - 1, 1]) 24000 1 = Inr b \<and>
        length (samples b) = 3 \<and>
        \<bar>samples b ! 0 - 1 / 2\<bar> \<le> 1 / 32768 \<and>
        \<bar>samples b ! 1 - (- 1)\<bar> \<le> 1 / 32768 \<and>
        \<bar>samples b ! 2 - 1\<bar> \<le> 1 / 32768)"
proof -
  have h: "\<forall>s \<in> set [1 / 2, - 1, 1 :: real]. - 1 \<le> s \<and> s \<le> 1"
    by simp
  from codec_roundtrip [OF h, of 24000 1] obtain b where
    b: "decode (encode [1 / 2, - 1, 1]) 24000 1 = Inr b"
       "length (samples b) = length [1 / 2, - 1, 1 :: real]"
       "\<forall>i < length [1 / 2, - 1, 1 :: real]. \<bar>samples b ! i - [1 / 2, - 1, 1] ! i\<bar> \<le> 1 / 32768"
    by blast
  have "\<bar>samples b ! 0 - 1 / 2\<bar> \<le> 1 / 32768"
    "\<bar>samples b ! 1 - (- 1)\<bar> \<le> 1 / 32768" "\<bar>samples b ! 2 - 1\<bar> \<le> 1 / 32768"
    using b(3) [rule_format, of 0] b(3) [rule_format, of 1] b(3) [rule_format, of 2]
    by simp_all
  with b(1,2) show ?thesis
    by (simp add: length_encode)
qed

section \<open>Claims about the playback scheduler\<close>

text \<open>
  C1, with the condition on the clock. With the output context and gain in place, every enqueued buffer starts
  at the maximum of the cursor and the output clock, and the cursor then moves to that
  start plus the buffer's duration. For two buffers enqueued one after the other, the
  second starts no earlier than the first ends and no earlier than the clock, so playback
  is in enqueue order and never overlaps; it starts exactly at the first one's end when
  the clock has not passed that end at the second enqueue.
\<close>

theorem enqueue_back_to_back:
  assumes "outputAudioContext c \<noteq> None" and "outputGain c \<noteq> None"
  shows "\<exists>sA sB c1 w1 c2 w2.
     sA = max (nextStartTime c) tA \<and> sB = max (sA + duration A) tB \<and>
     scheduleAudioChunk tA A (c, w) = (Inr (), (c1, w1)) \<and>
     scheduleAudioChunk tB B (c1, w1) = (Inr (), (c2, w2)) \<and>
     trace w1 = trace w @ [SourceStart (fresh w) sA] \<and>
     nextStartTime c1 = sA + duration A \<and>
     trace w2 = trace w @ [SourceStart (fresh w) sA, SourceStart (Suc (fresh w)) sB] \<and>
     nextStartTime c2 = sB + duration B \<and>
     sources c2 = set_add (Suc (fresh w)) (set_add (fresh w) (sources c)) \<and>
     tA \<le> sA \<and> tB \<le> sB \<and> sA + duration A \<le> sB \<and>
     (tB \<le> sA + duration A \<longrightarrow> sB = sA + duration A)"
proof -
  let ?sA = "max (nextStartTime c) tA"
  let ?c1 = "c\<lparr>nextStartTime := ?sA + duration A, sources := set_add (fresh w) (sources c)\<rparr>"
  let ?w1 = "w\<lparr>fresh := Suc (fresh w), trace := trace w @ [SourceStart (fresh w) ?sA]\<rparr>"
  have first: "scheduleAudioChunk tA A (c, w) = (Inr (), (?c1, ?w1))"
    using assms by (rule schedule_run)
  have "outputAudioContext ?c1 \<noteq> None" "outputGain ?c1 \<noteq> None"
    using assms by simp_all
  from schedule_run [OF this, of tB B ?w1]
  have second: "scheduleAudioChunk tB B (?c1, ?w1) =
      (Inr (), (?c1\<lparr>nextStartTime := max (nextStartTime ?c1) tB + duration B,
                     sources := set_add (fresh ?w1) (sources ?c1)\<rparr>,
                ?w1\<lparr>fresh := Suc (fresh ?w1),
                   trace := trace ?w1 @ [SourceStart (fresh ?w1) (max (nextStartTime ?c1) tB)]\<rparr>))" .
  show ?thesis
    using first second by (simp add: max_def)
qed

theorem enqueue_back_to_back_witness:
  "trace (snd (snd (scheduleAudioChunk (1 / 2) (silence 12000)
       (snd (scheduleAudioChunk 0 (silence 24000) active_state))))) =
     trace (snd active_state) @ [SourceStart 8 0, SourceStart 9 1]"
proof -
  have h: "outputAudioContext (fst active_state) \<noteq> None" "outputGain (fst active_state) \<noteq> None"
    by (simp_all add: active_state_eq)
  from enqueue_back_to_back [OF h, of 0 "silence 24000" "1 / 2" "snd active_state" "silence 12000"]
  show ?thesis
    by (auto simp add: active_state_eq duration_silence)
qed

text \<open>
  C1 without that condition fails when the second buffer arrives late: after a fresh connect (cursor 0,
  no source), a one-second buffer enqueued at clock 0 ends at 1, and the next buffer,
  enqueued at clock 5, starts at 5.
\<close>

theorem enqueue_late_counterexample:
  "nextStartTime (fst active_state) = 0 \<and> sources (fst active_state) = [] \<and>
   duration (silence 24000) = 1 \<and>
   trace (snd (snd (scheduleAudioChunk 5 (silence 12000)
       (snd (scheduleAudioChunk 0 (silence 24000) active_state))))) =
     trace (snd active_state) @ [SourceStart 8 0, SourceStart 9 5] \<and>
   (5 :: real) \<noteq> 0 + duration (silence 24000)"
  by (simp add: active_state_eq duration_silence schedule_run)

text \<open>
  C2. The interruption branch of the message handler, whatever \<^verbatim>\<open>stop\<close> does on each
  source (it may throw on one that has already finished): every source of the live-set
  gets its \<^verbatim>\<open>stop\<close> call, the live-set is emptied, the cursor is zero and nothing is
  thrown. A second interruption right after changes nothing; so does one after every
  source has ended and removed itself. The next buffer enqueued after an interruption
  starts at the output clock, not at the old cursor.
\<close>

theorem interrupt_idempotent:
  shows "interrupt env (c, w) =
       (Inr (), (c\<lparr>sources := [], nextStartTime := 0\<rparr>,
                 w\<lparr>trace := trace w @
                     map SourceStop (filter (\<lambda>s. stopFails env s = None) (sources c))\<rparr>)) \<and>
     interrupt env (snd (interrupt env (c, w))) = (Inr (), snd (interrupt env (c, w))) \<and>
     interrupt env (snd (for_each (sources c) onended (c, w))) =
       (Inr (), (c\<lparr>sources := [], nextStartTime := 0\<rparr>, w)) \<and>
     (outputAudioContext c \<noteq> None \<and> outputGain c \<noteq> None \<and> 0 \<le> now \<longrightarrow>
        scheduleAudioChunk now b (snd (interrupt env (c, w))) =
          (Inr (), (c\<lparr>sources := [fresh w], nextStartTime := now + duration b\<rparr>,
                    w\<lparr>fresh := Suc (fresh w),
                      trace := trace w @
                        map SourceStop (filter (\<lambda>s. stopFails env s = None) (sources c)) @
                        [SourceStart (fresh w) now]\<rparr>)))"
proof (intro conjI impI)
  show "interrupt env (c, w) =
       (Inr (), (c\<lparr>sources := [], nextStartTime := 0\<rparr>,
                 w\<lparr>trace := trace w @
                     map SourceStop (filter (\<lambda>s. stopFails env s = None) (sources c))\<rparr>))"
    by (rule interrupt_run)
  show "interrupt env (snd (interrupt env (c, w))) = (Inr (), snd (interrupt env (c, w)))"
    by (simp add: interrupt_run)
  show "interrupt env (snd (for_each (sources c) onended (c, w))) =
       (Inr (), (c\<lparr>sources := [], nextStartTime := 0\<rparr>, w))"
    by (simp add: all_ended interrupt_run)
next
  assume a: "outputAudioContext c \<noteq> None \<and> outputGain c \<noteq> None \<and> 0 \<le> now"
  let ?c = "c\<lparr>sources := [], nextStartTime := 0\<rparr>"
  have "outputAudioContext ?c \<noteq> None" "outputGain ?c \<noteq> None"
    using a by simp_all
  from schedule_run [OF this] a
  show "scheduleAudioChunk now b (snd (interrupt env (c, w))) =
          (Inr (), (c\<lparr>sources := [fresh w], nextStartTime := now + duration b\<rparr>,
                    w\<lparr>fresh := Suc (fresh w),
                      trace := trace w @
                        map SourceStop (filter (\<lambda>s. stopFails env s = None) (sources c)) @
                        [SourceStart (fresh w) now]\<rparr>))"
    by (simp add: interrupt_run set_add_def)
qed

theorem interrupt_idempotent_witness:
  "nextStartTime (fst playing_state) = 1 \<and> sources (fst playing_state) = [8] \<and>
   scheduleAudioChunk (1 / 4) (silence 12000) (snd (interrupt hostile_env playing_state)) =
     (Inr (), ((fst playing_state)\<lparr>sources := [9], nextStartTime := 3 / 4\<rparr>,
               (snd playing_state)\<lparr>fresh := 10,
                 trace := trace (snd playing_state) @ [SourceStart 9 (1 / 4)]\<rparr>))"
proof -
  have h: "outputAudioContext (fst playing_state) \<noteq> None \<and>
      outputGain (fst playing_state) \<noteq> None \<and> (0 :: real) \<le> 1 / 4"
    by (simp add: playing_state_eq active_state_eq)
  note step = interrupt_idempotent [of hostile_env "fst playing_state" "snd playing_state"
      "1 / 4" "silence 12000", THEN conjunct2, THEN conjunct2, THEN conjunct2, rule_format, OF h]
  have "stopFails hostile_env = (\<lambda>h. Some (Error ''InvalidStateError''))"
    by (simp add: hostile_env_def)
  with step show ?thesis
    by (simp add: playing_state_eq active_state_eq duration_silence)
qed


section \<open>Claims about the session controller\<close>

text \<open>
  C3. One inbound message. If it signals interruption and carries a payload that decodes,
  every live source is stopped and the cursor reset first, and only then is the decoded
  buffer started, at the output clock, as the only member of the live-set. If it carries a
  decodable payload and no interruption, the handler does exactly what enqueuing the decoded
  buffer does. With an interruption and no payload it only interrupts; with neither, the
  state is returned unchanged and nothing is thrown. (The payload cases are for a session
  whose output context and gain exist; C7 and C10 cover the others.)
\<close>

theorem inbound_message_routing:
  "(is_interrupted m \<and> base64Audio m = Some payload \<and> payload \<noteq> [] \<and>
      base64ToBytes env payload = Inr bytes \<and> decodeAudioData env bytes 24000 1 = Inr buf \<and>
      outputAudioContext c \<noteq> None \<and> outputGain c \<noteq> None \<longrightarrow>
    onmessage env now m (c, w) =
      (Inr (), (c\<lparr>sources := [fresh w], nextStartTime := max 0 now + duration buf\<rparr>,
                w\<lparr>fresh := Suc (fresh w),
                  trace := trace w @
                    map SourceStop (filter (\<lambda>s. stopFails env s = None) (sources c)) @
                    [SourceStart (fresh w) (max 0 now)]\<rparr>))) \<and>
   (\<not> is_interrupted m \<and> base64Audio m = Some payload \<and> payload \<noteq> [] \<and>
      base64ToBytes env payload = Inr bytes \<and> decodeAudioData env bytes 24000 1 = Inr buf \<and>
      outputAudioContext c \<noteq> None \<and> outputGain c \<noteq> None \<longrightarrow>
    onmessage env now m (c, w) = scheduleAudioChunk now buf (c, w)) \<and>
   (is_interrupted m \<and> (base64Audio m = None \<or> base64Audio m = Some []) \<longrightarrow>
    onmessage env now m (c, w) = interrupt env (c, w)) \<and>
   (\<not> is_interrupted m \<and> (base64Audio m = None \<or> base64Audio m = Some []) \<longrightarrow>
    onmessage env now m (c, w) = (Inr (), (c, w)))"
proof (intro conjI impI)
  assume a: "is_interrupted m \<and> base64Audio m = Some payload \<and> payload \<noteq> [] \<and>
      base64ToBytes env payload = Inr bytes \<and> decodeAudioData env bytes 24000 1 = Inr buf \<and>
      outputAudioContext c \<noteq> None \<and> outputGain c \<noteq> None"
  then have "onmessage env now m (c, w) =
     (if is_interrupted m
      then (Inr (), (c\<lparr>sources := [fresh w], nextStartTime := max 0 now + duration buf\<rparr>,
              w\<lparr>fresh := Suc (fresh w),
                trace := trace w @
                  map SourceStop (filter (\<lambda>s. stopFails env s = None) (sources c)) @
                  [SourceStart (fresh w) (max 0 now)]\<rparr>))
      else scheduleAudioChunk now buf (c, w))"
    by (intro onmessage_decoded [where payload = payload and bytes = bytes]) blast+
  with a show "onmessage env now m (c, w) =
      (Inr (), (c\<lparr>sources := [fresh w], nextStartTime := max 0 now + duration buf\<rparr>,
                w\<lparr>fresh := Suc (fresh w),
                  trace := trace w @
                    map SourceStop (filter (\<lambda>s. stopFails env s = None) (sources c)) @
                    [SourceStart (fresh w) (max 0 now)]\<rparr>))"
    by simp
next
  assume a: "\<not> is_interrupted m \<and> base64Audio m = Some payload \<and> payload \<noteq> [] \<and>
      base64ToBytes env payload = Inr bytes \<and> decodeAudioData env bytes 24000 1 = Inr buf \<and>
      outputAudioContext c \<noteq> None \<and> outputGain c \<noteq> None"
  then have "onmessage env now m (c, w) =
     (if is_interrupted m
      then (Inr (), (c\<lparr>sources := [fresh w], nextStartTime := max 0 now + duration buf\<rparr>,
              w\<lparr>fresh := Suc (fresh w),
                trace := trace w @
                  map SourceStop (filter (\<lambda>s. stopFails env s = None) (sources c)) @
                  [SourceStart (fresh w) (max 0 now)]\<rparr>))
      else scheduleAudioChunk now buf (c, w))"
    by (intro onmessage_decoded [where payload = payload and bytes = bytes]) blast+
  with a show "onmessage env now m (c, w) = scheduleAudioChunk now buf (c, w)"
    by simp
next
  assume "is_interrupted m \<and> (base64Audio m = None \<or> base64Audio m = Some [])"
  then show "onmessage env now m (c, w) = interrupt env (c, w)"
    using onmessage_no_payload [of m env now c w] by simp
next
  assume "\<not> is_interrupted m \<and> (base64Audio m = None \<or> base64Audio m = Some [])"
  then show "onmessage env now m (c, w) = (Inr (), (c, w))"
    using onmessage_no_payload [of m env now c w] by simp
qed

theorem inbound_message_routing_witness:
  "onmessage plain_env 2 (audio_message True ''abcd'') playing_state =
     (Inr (), ((fst playing_state)\<lparr>sources := [9], nextStartTime := 2 + 1 / 12000\<rparr>,
               (snd playing_state)\<lparr>fresh := 10,
                 trace := trace (snd playing_state) @ [SourceStop 8, SourceStart 9 2]\<rparr>)) \<and>
   onmessage plain_env 2 empty_message playing_state = (Inr (), playing_state)"
proof -
  have dec: "decodeAudioData plain_env (map of_char ''abcd'') 24000 1 = Inr (pcm_buffer ''abcd'')"
    by (rule plain_env_decodes) simp
  have h1: "is_interrupted (audio_message True ''abcd'') \<and>
      base64Audio (audio_message True ''abcd'') = Some ''abcd'' \<and> ''abcd'' \<noteq> [] \<and>
      base64ToBytes plain_env ''abcd'' = Inr (map of_char ''abcd'') \<and>
      decodeAudioData plain_env (map of_char ''abcd'') 24000 1 = Inr (pcm_buffer ''abcd'') \<and>
      outputAudioContext (fst playing_state) \<noteq> None \<and> outputGain (fst playing_state) \<noteq> None"
    using dec plain_env_fields(1) [of "''abcd''"]
    by (simp add: audio_message_simps playing_state_eq active_state_eq)
  have h2: "\<not> is_interrupted empty_message \<and>
      (base64Audio empty_message = None \<or> base64Audio empty_message = Some [])"
    by (simp add: audio_message_simps)
  note first = inbound_message_routing [of "audio_message True ''abcd''" "''abcd''" plain_env
      "map of_char ''abcd''" "pcm_buffer ''abcd''" "fst playing_state" 2 "snd playing_state",
      THEN conjunct1, rule_format, OF h1]
  note last = inbound_message_routing [of empty_message "''abcd''" plain_env
      "map of_char ''abcd''" "pcm_buffer ''abcd''" "fst playing_state" 2 "snd playing_state",
      THEN conjunct2, THEN conjunct2, THEN conjunct2, rule_format, OF h2]
  from first last show ?thesis
    by (simp add: plain_env_fields duration_pcm_buffer playing_state_eq active_state_eq)
qed


text \<open>
  C7. A payload that fails to decode, at either stage (the transport decoding or the PCM
  decoding, such as an odd byte length), costs one log entry and nothing else: the handler
  returns normally, the client is as it was (apart from the interruption the same message
  may carry). A later message that decodes is then handled as if the failed one had never
  arrived: same client state, same events, after the log entry.
\<close>

theorem decode_failure_dropped:
  assumes m: "base64Audio m = Some payload" "payload \<noteq> []"
    and out: "outputAudioContext c \<noteq> None" "outputGain c \<noteq> None"
    and bad: "base64ToBytes env payload = Inl e \<or>
         (\<exists>bytes. base64ToBytes env payload = Inr bytes \<and>
                  decodeAudioData env bytes 24000 1 = Inl e)"
    and m2: "base64Audio m2 = Some payload2" "payload2 \<noteq> []"
      "base64ToBytes env payload2 = Inr bytes2" "decodeAudioData env bytes2 24000 1 = Inr buf2"
  shows "onmessage env now m (c, w) =
       (Inr (), (if is_interrupted m then c\<lparr>sources := [], nextStartTime := 0\<rparr> else c,
                 w\<lparr>trace := trace w @
                     (if is_interrupted m
                      then map SourceStop (filter (\<lambda>s. stopFails env s = None) (sources c))
                      else []) @
                     [Log ''Error decoding audio'']\<rparr>)) \<and>
     (\<not> is_interrupted m \<longrightarrow>
        fst (onmessage env now2 m2 (snd (onmessage env now m (c, w)))) = Inr () \<and>
        fst (snd (onmessage env now2 m2 (snd (onmessage env now m (c, w))))) =
          fst (snd (onmessage env now2 m2 (c, w))) \<and>
        trace (snd (snd (onmessage env now2 m2 (snd (onmessage env now m (c, w)))))) =
          trace w @ [Log ''Error decoding audio''] @
          drop (length (trace w)) (trace (snd (snd (onmessage env now2 m2 (c, w))))))"
proof -
  note failed = onmessage_failed [OF m bad out, of now w]
  let ?w = "w\<lparr>trace := trace w @ [Log ''Error decoding audio'']\<rparr>"
  note after = onmessage_decoded [OF m2 out, of now2 ?w]
  note plain = onmessage_decoded [OF m2 out, of now2 w]
  show ?thesis
  proof (intro conjI impI)
    show "onmessage env now m (c, w) =
       (Inr (), (if is_interrupted m then c\<lparr>sources := [], nextStartTime := 0\<rparr> else c,
                 w\<lparr>trace := trace w @
                     (if is_interrupted m
                      then map SourceStop (filter (\<lambda>s. stopFails env s = None) (sources c))
                      else []) @
                     [Log ''Error decoding audio'']\<rparr>))"
      using failed by simp
  next
    assume quiet: "\<not> is_interrupted m"
    with failed have step: "snd (onmessage env now m (c, w)) = (c, ?w)"
      by simp
    show "fst (onmessage env now2 m2 (snd (onmessage env now m (c, w)))) = Inr ()"
      using out by (simp add: step after schedule_run)
    show "fst (snd (onmessage env now2 m2 (snd (onmessage env now m (c, w))))) =
          fst (snd (onmessage env now2 m2 (c, w)))"
      using out by (simp add: step after plain schedule_run)
    show "trace (snd (snd (onmessage env now2 m2 (snd (onmessage env now m (c, w)))))) =
          trace w @ [Log ''Error decoding audio''] @
          drop (length (trace w)) (trace (snd (snd (onmessage env now2 m2 (c, w)))))"
      using out by (simp add: step after plain schedule_run)
  qed
qed

theorem decode_failure_dropped_witness:
  "decodeAudioData plain_env (map of_char ''abc'') 24000 1 = Inl (Error ''MalformedAudioError'') \<and>
   onmessage plain_env 3 (audio_message False ''abc'') playing_state =
     (Inr (), (fst playing_state,
               (snd playing_state)\<lparr>trace := trace (snd playing_state) @
                  [Log ''Error decoding audio'']\<rparr>)) \<and>
   trace (snd (snd (onmessage plain_env 4 (audio_message False ''abcd'')
       (snd (onmessage plain_env 3 (audio_message False ''abc'') playing_state))))) =
     trace (snd playing_state) @ [Log ''Error decoding audio'', SourceStart 9 4]"
proof -
  have bad: "decodeAudioData plain_env (map of_char ''abc'') 24000 1 =
      Inl (Error ''MalformedAudioError'')"
    by (rule plain_env_decodes) simp
  have good: "decodeAudioData plain_env (map of_char ''abcd'') 24000 1 = Inr (pcm_buffer ''abcd'')"
    by (rule plain_env_decodes) simp
  have out: "outputAudioContext (fst playing_state) \<noteq> None"
    "outputGain (fst playing_state) \<noteq> None"
    by (simp_all add: playing_state_eq active_state_eq)
  have fails: "base64ToBytes plain_env ''abc'' = Inl (Error ''MalformedAudioError'') \<or>
      (\<exists>bytes. base64ToBytes plain_env ''abc'' = Inr bytes \<and>
         decodeAudioData plain_env bytes 24000 1 = Inl (Error ''MalformedAudioError''))"
    using bad plain_env_fields(1) [of "''abc''"] by blast
  note drop = decode_failure_dropped [of "audio_message False ''abc''" "''abc''"
      "fst playing_state" plain_env "Error ''MalformedAudioError''"
      "audio_message False ''abcd''" "''abcd''" "map of_char ''abcd''" "pcm_buffer ''abcd''"
      3 "snd playing_state" 4,
      OF audio_message_simps(1) _ out fails audio_message_simps(1) _
        plain_env_fields(1) good]
  have quiet: "\<not> is_interrupted (audio_message False ''abc'')"
    by (simp add: audio_message_simps)
  have pair: "(fst playing_state, snd playing_state) = playing_state"
    by simp
  have plain: "trace (snd (snd (onmessage plain_env 4 (audio_message False ''abcd'')
      playing_state))) = trace (snd playing_state) @ [SourceStart 9 4]"
    using onmessage_decoded [OF audio_message_simps(1) [of False "''abcd''"] _
        plain_env_fields(1) good out, where now = 4 and w = "snd playing_state"]
    by (simp add: audio_message_simps schedule_run playing_state_eq active_state_eq)
  from drop have first: "onmessage plain_env 3 (audio_message False ''abc'') playing_state =
     (Inr (), (fst playing_state,
               (snd playing_state)\<lparr>trace := trace (snd playing_state) @
                  [Log ''Error decoding audio'']\<rparr>))"
    unfolding pair using quiet by simp
  from drop quiet have "trace (snd (snd (onmessage plain_env 4 (audio_message False ''abcd'')
       (snd (onmessage plain_env 3 (audio_message False ''abc'') playing_state))))) =
     trace (snd playing_state) @ [Log ''Error decoding audio''] @
     drop (length (trace (snd playing_state)))
       (trace (snd (snd (onmessage plain_env 4 (audio_message False ''abcd'') playing_state))))"
    unfolding pair by blast
  then have second: "trace (snd (snd (onmessage plain_env 4 (audio_message False ''abcd'')
       (snd (onmessage plain_env 3 (audio_message False ''abc'') playing_state))))) =
     trace (snd playing_state) @ [Log ''Error decoding audio'', SourceStart 9 4]"
    unfolding plain by simp
  from bad first second show ?thesis
    by blast
qed


text \<open>
  C10. After \<^verbatim>\<open>disconnect\<close> the output context is null (the gain handle keeps its
  value), so an inbound message, with or without an audio payload, starts no source,
  creates no node, emits no event and throws nothing; at most its interruption flag zeroes
  the cursor. \<^verbatim>\<open>scheduleAudioChunk\<close> called then returns at once. The same holds in any
  state whose output context or gain is null.
\<close>

theorem message_after_disconnect:
  "outputAudioContext (fst (snd (disconnect env (c, w)))) = None \<and>
   outputGain (fst (snd (disconnect env (c, w)))) = outputGain c \<and>
   sources (fst (snd (disconnect env (c, w)))) = [] \<and>
   onmessage env now m (snd (disconnect env (c, w))) =
     (Inr (), ((fst (snd (disconnect env (c, w))))
                 \<lparr>nextStartTime := if is_interrupted m then 0 else nextStartTime c\<rparr>,
               snd (snd (disconnect env (c, w))))) \<and>
   scheduleAudioChunk now b (snd (disconnect env (c, w))) = (Inr (), snd (disconnect env (c, w))) \<and>
   (outputAudioContext c = None \<or> outputGain c = None \<longrightarrow>
      scheduleAudioChunk now b (c, w) = (Inr (), (c, w)) \<and>
      onmessage env now m (c, w) =
        (if is_interrupted m then interrupt env (c, w) else (Inr (), (c, w))))"
proof (intro conjI impI)
  let ?c = "c\<lparr>sources := [], session := None, sessionPromise := None,
      inputAudioContext := None, outputAudioContext := None, processor := None,
      inputSource := None\<rparr>"
  let ?w = "w\<lparr>trace := trace w @ teardown_events env c\<rparr>"
  have after: "snd (disconnect env (c, w)) = (?c, ?w)"
    by (simp add: disconnect_run)
  have none: "outputAudioContext ?c = None \<or> outputGain ?c = None"
    by simp
  show "outputAudioContext (fst (snd (disconnect env (c, w)))) = None"
    by (simp add: after)
  show "outputGain (fst (snd (disconnect env (c, w)))) = outputGain c"
    by (simp add: after)
  show "sources (fst (snd (disconnect env (c, w)))) = []"
    by (simp add: after)
  show "onmessage env now m (snd (disconnect env (c, w))) =
     (Inr (), ((fst (snd (disconnect env (c, w))))
                 \<lparr>nextStartTime := if is_interrupted m then 0 else nextStartTime c\<rparr>,
               snd (snd (disconnect env (c, w)))))"
    unfolding after using onmessage_no_output [OF none, of env now m ?w]
    by (simp add: interrupt_run)
  show "scheduleAudioChunk now b (snd (disconnect env (c, w))) =
      (Inr (), snd (disconnect env (c, w)))"
    unfolding after by (rule schedule_skip [OF none])
next
  assume "outputAudioContext c = None \<or> outputGain c = None"
  then show "scheduleAudioChunk now b (c, w) = (Inr (), (c, w))"
    by (rule schedule_skip)
next
  assume "outputAudioContext c = None \<or> outputGain c = None"
  then show "onmessage env now m (c, w) =
        (if is_interrupted m then interrupt env (c, w) else (Inr (), (c, w)))"
    by (rule onmessage_no_output)
qed

theorem message_after_disconnect_witness:
  "outputGain (fst (snd (disconnect plain_env playing_state))) = Some 4 \<and>
   outputAudioContext (fst (snd (disconnect plain_env playing_state))) = None \<and>
   onmessage plain_env 6 (audio_message False ''abcd'') (snd (disconnect plain_env playing_state)) =
     (Inr (), snd (disconnect plain_env playing_state)) \<and>
   onmessage plain_env 6 (audio_message False ''abcd'') (new_client, new_world) =
     (Inr (), (new_client, new_world))"
proof -
  have pair: "(fst playing_state, snd playing_state) = playing_state"
    by simp
  note after = message_after_disconnect [of plain_env "fst playing_state" "snd playing_state"
      6 "audio_message False ''abcd''" "silence 1", unfolded pair]
  have cursor: "nextStartTime (fst (snd (disconnect plain_env playing_state))) =
      nextStartTime (fst playing_state)"
    using disconnect_run [of plain_env "fst playing_state" "snd playing_state"]
    by (simp add: pair)
  have gain: "outputGain (fst playing_state) = Some 4"
    by (simp add: playing_state_eq active_state_eq)
  have idle: "outputAudioContext new_client = None \<or> outputGain new_client = None"
    by (simp add: new_client_def)
  note fresh = message_after_disconnect [of plain_env new_client new_world
      6 "audio_message False ''abcd''" "silence 1", THEN conjunct2, THEN conjunct2,
      THEN conjunct2, THEN conjunct2, THEN conjunct2, rule_format, OF idle, THEN conjunct2]
  from after have "onmessage plain_env 6 (audio_message False ''abcd'')
      (snd (disconnect plain_env playing_state)) =
     (Inr (), ((fst (snd (disconnect plain_env playing_state)))
                 \<lparr>nextStartTime := nextStartTime (fst playing_state)\<rparr>,
               snd (snd (disconnect plain_env playing_state))))"
    by (simp add: audio_message_simps)
  then have ignored: "onmessage plain_env 6 (audio_message False ''abcd'')
      (snd (disconnect plain_env playing_state)) = (Inr (), snd (disconnect plain_env playing_state))"
    by (simp add: cursor [symmetric])
  from after gain have g: "outputGain (fst (snd (disconnect plain_env playing_state))) = Some 4"
    by simp
  from after have x: "outputAudioContext (fst (snd (disconnect plain_env playing_state))) = None"
    by blast
  from fresh have "onmessage plain_env 6 (audio_message False ''abcd'') (new_client, new_world) =
     (Inr (), (new_client, new_world))"
    by (simp add: audio_message_simps)
  with g x ignored show ?thesis
    by blast
qed


text \<open>
  C4 fails at this input. From a new client, the microphone request succeeds and the session
  promise is rejected. The catch block disconnects the five nodes, closes both contexts,
  clears the fields and calls the error callback once, and the client is idle; but the
  stream obtained from \<^verbatim>\<open>getUserMedia\<close> is still acquired: no call after it stops its
  tracks. The same failed connect, made from the state a closed stream leaves behind, also
  leaves the earlier session's two contexts open and its five nodes wired, and a second
  stream acquired, while the client reads as idle.
\<close>

theorem failed_connect_keeps_microphone:
  "connect plain_env refused puck (new_client, new_world) =
     (Inr (),
      (new_client\<lparr>userAnalyser := Some 2, aiAnalyser := Some 3, outputGain := Some 4\<rparr>,
       \<lparr>fresh = 8,
         trace = [NewAudioContext 0 16000, NewAudioContext 1 24000, CreateNode 2, CreateNode 3,
                  CreateNode 4, GetUserMedia, CreateNode 5, CreateNode 6, LiveConnect 7 puck,
                  Log ''Connection failed'',
                  DisconnectNode 6, DisconnectNode 5, DisconnectNode 2, DisconnectNode 3,
                  DisconnectNode 4, CloseContext 0, CloseContext 1,
                  OnError (Error ''handshake failed'')],
         settled = [(7, Rejected (Error ''handshake failed''))], reactions = []\<rparr>)) \<and>
   streams_acquired (trace (snd (snd (connect plain_env refused puck (new_client, new_world))))) = 1 \<and>
   is_idle (fst (snd (connect plain_env refused puck (new_client, new_world)))) \<and>
   is_idle (fst (snd (connect plain_env refused puck stream_closed_state))) \<and>
   open_contexts (trace (snd (snd (connect plain_env refused puck stream_closed_state)))) = [0, 1] \<and>
   wired_nodes (trace (snd (snd (connect plain_env refused puck stream_closed_state)))) =
     [2, 3, 4, 5, 6] \<and>
   streams_acquired (trace (snd (snd (connect plain_env refused puck stream_closed_state)))) = 2"
proof (intro conjI)
  show first: "connect plain_env refused puck (new_client, new_world) =
     (Inr (),
      (new_client\<lparr>userAnalyser := Some 2, aiAnalyser := Some 3, outputGain := Some 4\<rparr>,
       \<lparr>fresh = 8,
         trace = [NewAudioContext 0 16000, NewAudioContext 1 24000, CreateNode 2, CreateNode 3,
                  CreateNode 4, GetUserMedia, CreateNode 5, CreateNode 6, LiveConnect 7 puck,
                  Log ''Connection failed'',
                  DisconnectNode 6, DisconnectNode 5, DisconnectNode 2, DisconnectNode 3,
                  DisconnectNode 4, CloseContext 0, CloseContext 1,
                  OnError (Error ''handshake failed'')],
         settled = [(7, Rejected (Error ''handshake failed''))], reactions = []\<rparr>))"
    by (simp add: connect_refused new_client_def new_world_def close_events_def)
  show "streams_acquired (trace (snd (snd (connect plain_env refused puck
      (new_client, new_world))))) = 1"
    by (simp add: first streams_acquired_def)
  show "is_idle (fst (snd (connect plain_env refused puck (new_client, new_world))))"
    unfolding first by (simp add: is_idle_def new_client_def)
  show "is_idle (fst (snd (connect plain_env refused puck stream_closed_state)))"
    by (simp add: stream_closed_state_eq connect_refused is_idle_def)
  show "open_contexts (trace (snd (snd (connect plain_env refused puck stream_closed_state)))) =
      [0, 1]"
    by (simp add: stream_closed_state_eq active_state_eq connect_refused close_events_def
        the_session_def open_contexts_def context_step_def)
  show "wired_nodes (trace (snd (snd (connect plain_env refused puck stream_closed_state)))) =
      [2, 3, 4, 5, 6]"
    by (simp add: stream_closed_state_eq active_state_eq connect_refused close_events_def
        the_session_def wired_nodes_def node_step_def)
  show "streams_acquired (trace (snd (snd (connect plain_env refused puck
      stream_closed_state)))) = 2"
    by (simp add: stream_closed_state_eq active_state_eq connect_refused close_events_def
        the_session_def streams_acquired_def)
qed

text \<open>
  C5 fails at this input. \<^verbatim>\<open>disconnect\<close> and \<^verbatim>\<open>connect\<close> both leave the cursor as they
  found it. So: connect, play one chunk at output clock 5 (the cursor becomes 5 + 1/12000),
  disconnect (the client is idle), connect again (a new output context, whose clock starts
  from zero), and the first chunk of the new session, handled at clock 1/10, is started at
  the old cursor 5 + 1/12000 instead of at the clock.
\<close>

theorem stale_cursor_after_reconnect:
  "nextStartTime (fst (snd (disconnect env (c, w)))) = nextStartTime c \<and>
   nextStartTime (fst (snd (connect env ce cfg (c, w)))) = nextStartTime c \<and>
   nextStartTime (fst active_state) = 0 \<and>
   nextStartTime (fst first_session_played) = 5 + 1 / 12000 \<and>
   is_idle (fst (snd (disconnect plain_env first_session_played))) \<and>
   outputAudioContext (fst reconnected) = Some 10 \<and>
   sources (fst reconnected) = [] \<and>
   nextStartTime (fst reconnected) = 5 + 1 / 12000 \<and>
   trace (snd (snd (onmessage plain_env (1 / 10) (audio_message False ''abcd'') reconnected))) =
     trace (snd reconnected) @ [SourceStart 17 (5 + 1 / 12000)]"
proof (intro conjI)
  show "nextStartTime (fst (snd (disconnect env (c, w)))) = nextStartTime c"
    by (rule disconnect_keeps_cursor)
  show "nextStartTime (fst (snd (connect env ce cfg (c, w)))) = nextStartTime c"
    by (rule connect_keeps_cursor)
  show "nextStartTime (fst active_state) = 0"
    by (simp add: active_state_eq)
  show "nextStartTime (fst first_session_played) = 5 + 1 / 12000"
    by (simp add: first_session_played_eq)
  show "is_idle (fst (snd (disconnect plain_env first_session_played)))"
    by (simp add: is_idle_def first_session_played_eq disconnect_run)
  show "outputAudioContext (fst reconnected) = Some 10"
    by (simp add: reconnected_eq)
  show "sources (fst reconnected) = []"
    by (simp add: reconnected_eq)
  show "nextStartTime (fst reconnected) = 5 + 1 / 12000"
    by (simp add: reconnected_eq)
  show "trace (snd (snd (onmessage plain_env (1 / 10) (audio_message False ''abcd'') reconnected))) =
     trace (snd reconnected) @ [SourceStart 17 (5 + 1 / 12000)]"
    by (simp add: reconnected_eq run_simps)
qed


text \<open>
  C8, with the session promise as the test. A capture block is dropped silently, with nothing queued and nothing
  logged, exactly when the client holds no session promise: before any connect, and after
  \<^verbatim>\<open>disconnect\<close>, which clears it. When it holds one, the callback only queues a
  continuation on that promise and returns; it emits no call of its own. The continuation
  sends the chunk if the promise resolved and the send does not throw, and otherwise (a
  throwing send, a rejected promise) writes one log entry; running the continuations never
  throws and never changes the client, and those of a still pending promise stay queued.
\<close>

theorem capture_best_effort:
  "(sessionPromise c = None \<longrightarrow> onaudioprocess env xs (c, w) = (Inr (), (c, w))) \<and>
   onaudioprocess env xs (snd (disconnect env (c, w))) = (Inr (), snd (disconnect env (c, w))) \<and>
   (sessionPromise c = Some p \<longrightarrow>
      onaudioprocess env xs (c, w) =
        (Inr (), (c, w\<lparr>reactions := reactions w @ [(p, createPcmBlob env xs)]\<rparr>))) \<and>
   (sendFails env (sid sess) = None \<longrightarrow>
      send_reaction env (Resolved sess) pcmBlob (c, w) =
        (Inr (), (c, w\<lparr>trace := trace w @ [SendRealtimeInput (sid sess) pcmBlob]\<rparr>))) \<and>
   (sendFails env (sid sess) = Some e \<longrightarrow>
      send_reaction env (Resolved sess) pcmBlob (c, w) =
        (Inr (), (c, w\<lparr>trace := trace w @ [Log ''Failed to send audio'']\<rparr>))) \<and>
   send_reaction env (Rejected e) pcmBlob (c, w) =
     (Inr (), (c, w\<lparr>trace := trace w @ [Log ''Failed to send audio'']\<rparr>)) \<and>
   fst (run_reactions env (c, w)) = Inr () \<and>
   fst (snd (run_reactions env (c, w))) = c \<and>
   reactions (snd (snd (run_reactions env (c, w)))) =
     filter (\<lambda>r. map_of (settled w) (fst r) = None) (reactions w)"
  by (simp add: onaudioprocess_apply disconnect_run send_reaction_apply reaction_event_def
      run_reactions_apply)

theorem capture_best_effort_witness:
  "onaudioprocess hostile_env [1 / 2] (new_client, new_world) = (Inr (), (new_client, new_world)) \<and>
   onaudioprocess hostile_env [1 / 2] active_state =
     (Inr (), (fst active_state,
        (snd active_state)\<lparr>reactions := [(7, createPcmBlob hostile_env [1 / 2])]\<rparr>)) \<and>
   send_reaction hostile_env (Resolved the_session) ''chunk'' active_state =
     (Inr (), (fst active_state,
        (snd active_state)\<lparr>trace := trace (snd active_state) @ [Log ''Failed to send audio'']\<rparr>))"
proof -
  have idle: "sessionPromise new_client = None"
    by (simp add: new_client_def)
  have held: "sessionPromise (fst active_state) = Some 7"
    by (simp add: active_state_eq)
  have closed: "sendFails hostile_env (sid the_session) = Some (Error ''WebSocket is closed'')"
    by (simp add: hostile_env_def)
  note a = capture_best_effort [of new_client hostile_env "[1 / 2]" new_world,
      THEN conjunct1, rule_format, OF idle]
  note b = capture_best_effort [of "fst active_state" hostile_env "[1 / 2]" "snd active_state" 7,
      THEN conjunct2, THEN conjunct2, THEN conjunct1, rule_format, OF held]
  note c = capture_best_effort [of "fst active_state" hostile_env "[1 / 2]" "snd active_state" 7
      the_session "''chunk''" "Error ''WebSocket is closed''",
      THEN conjunct2, THEN conjunct2, THEN conjunct2, THEN conjunct2, THEN conjunct1,
      rule_format, OF closed]
  have empty: "reactions (snd active_state) = []"
    by (simp add: active_state_eq)
  from a b c show ?thesis
    by (simp add: empty)
qed

text \<open>
  C8 with "no active session" as the test fails while the connection is being opened: the session field is still null
  and the promise pending, yet a captured chunk is queued, each further block adds one more,
  and once the promise resolves the chunk is sent.
\<close>

theorem capture_while_connecting_counterexample:
  "session (fst connecting_state) = None \<and>
   sessionPromise (fst connecting_state) = Some 7 \<and>
   map_of (settled (snd connecting_state)) 7 = None \<and>
   snd (onaudioprocess plain_env [1 / 2] connecting_state) =
     (fst connecting_state,
      (snd connecting_state)\<lparr>reactions := [(7, createPcmBlob plain_env [1 / 2])]\<rparr>) \<and>
   length (reactions (snd (snd (onaudioprocess plain_env [1 / 4]
     (snd (onaudioprocess plain_env [1 / 3]
       (snd (onaudioprocess plain_env [1 / 2] connecting_state)))))))) = 3 \<and>
   trace (snd (snd (run_reactions plain_env (snd (settle 7 (Resolved the_session)
     (snd (onaudioprocess plain_env [1 / 2] connecting_state))))))) =
     trace (snd connecting_state) @ [SendRealtimeInput 100 (createPcmBlob plain_env [1 / 2])]"
  by (simp add: connecting_state_eq onaudioprocess_apply settle_apply run_reactions_apply
      reaction_event_def the_session_def plain_env_fields)

text \<open>
  C9 fails at this input. \<^verbatim>\<open>onclose\<close> and \<^verbatim>\<open>onerror\<close> log and call the caller's
  callback, and change nothing in the client. After a successful connect followed by the
  stream closing, the client still holds its session, processor and both open audio
  contexts, so it is not idle; the caller's status does become disconnected (or error), but
  its callbacks do not call \<^verbatim>\<open>disconnect\<close> either. The next capture block is still queued
  and its send attempted on the ended session.
\<close>

theorem stream_end_keeps_resources:
  "onclose (c, w) =
     (Inr (), (c, w\<lparr>trace := trace w @ [Log ''Gemini Live Connection Closed'', OnDisconnect]\<rparr>)) \<and>
   onerror msg (c, w) =
     (Inr (), (c, w\<lparr>trace := trace w @
        [Log ''Gemini Live Error'',
         OnError (Error (case msg of None \<Rightarrow> ''Unknown Live API Error''
                          | Some m \<Rightarrow> if m = [] then ''Unknown Live API Error'' else m))]\<rparr>)) \<and>
   fst (snd (onclose active_state)) = fst active_state \<and>
   \<not> is_idle (fst (snd (onclose active_state))) \<and>
   session (fst (snd (onclose active_state))) = Some the_session \<and>
   processor (fst (snd (onclose active_state))) = Some 6 \<and>
   open_contexts (trace (snd (snd (onclose active_state)))) = [0, 1] \<and>
   status (fst (run_with_callbacks onclose app_connected)) = Disconnected \<and>
   fst (snd (run_with_callbacks onclose app_connected)) = fst active_state \<and>
   status (fst (run_with_callbacks (onerror (Some ''socket lost'')) app_connected)) = ErrorStatus \<and>
   fst (snd (run_with_callbacks (onerror (Some ''socket lost'')) app_connected)) = fst active_state \<and>
   trace (snd (snd (run_reactions hostile_env
     (snd (onaudioprocess hostile_env [1 / 2] (snd (onclose active_state))))))) =
     trace (snd active_state) @
       [Log ''Gemini Live Connection Closed'', OnDisconnect, Log ''Failed to send audio'']"
proof (intro conjI)
  show "onclose (c, w) =
     (Inr (), (c, w\<lparr>trace := trace w @ [Log ''Gemini Live Connection Closed'', OnDisconnect]\<rparr>))"
    by (rule onclose_apply)
  show "onerror msg (c, w) =
     (Inr (), (c, w\<lparr>trace := trace w @
        [Log ''Gemini Live Error'',
         OnError (Error (case msg of None \<Rightarrow> ''Unknown Live API Error''
                          | Some m \<Rightarrow> if m = [] then ''Unknown Live API Error'' else m))]\<rparr>))"
    by (rule onerror_apply)
  show "fst (snd (onclose active_state)) = fst active_state"
    by (simp add: active_state_eq onclose_apply)
  show "\<not> is_idle (fst (snd (onclose active_state)))"
    by (simp add: active_state_eq onclose_apply is_idle_def)
  show "session (fst (snd (onclose active_state))) = Some the_session"
    by (simp add: active_state_eq onclose_apply)
  show "processor (fst (snd (onclose active_state))) = Some 6"
    by (simp add: active_state_eq onclose_apply)
  show "open_contexts (trace (snd (snd (onclose active_state)))) = [0, 1]"
    by (simp add: active_state_eq onclose_apply open_contexts_def context_step_def)
  show "status (fst (run_with_callbacks onclose app_connected)) = Disconnected"
    by (simp add: app_connected_eq run_with_callbacks_def Let_def active_state_eq onclose_apply
        callback_def)
  show "fst (snd (run_with_callbacks onclose app_connected)) = fst active_state"
    by (simp add: app_connected_eq run_with_callbacks_def Let_def active_state_eq onclose_apply)
  show "status (fst (run_with_callbacks (onerror (Some ''socket lost'')) app_connected)) = ErrorStatus"
    by (simp add: app_connected_eq run_with_callbacks_def Let_def active_state_eq onerror_apply
        callback_def)
  show "fst (snd (run_with_callbacks (onerror (Some ''socket lost'')) app_connected)) =
      fst active_state"
    by (simp add: app_connected_eq run_with_callbacks_def Let_def active_state_eq onerror_apply)
  show "trace (snd (snd (run_reactions hostile_env
     (snd (onaudioprocess hostile_env [1 / 2] (snd (onclose active_state))))))) =
     trace (snd active_state) @
       [Log ''Gemini Live Connection Closed'', OnDisconnect, Log ''Failed to send audio'']"
    by (simp add: active_state_eq onclose_apply onaudioprocess_apply run_reactions_apply
        reaction_event_def the_session_def hostile_env_def)
qed

end
